theory Spec2Isabelle
  imports Main "HOL-Library.Word" "HOL-Library.Signed_Division"
begin

section \<open>DiskUtilsLib: the operating-system interface\<close>

text \<open>
  The library (\<^verbatim>\<open>DiskUtilsLib.hpp\<close>) talks to Windows through \<^verbatim>\<open>CreateFileW\<close>,
  \<^verbatim>\<open>DeviceIoControl\<close> and \<^verbatim>\<open>CloseHandle\<close>. The structures of \<^verbatim>\<open>windows.h\<close> are
  records holding the fields the code reads. A \<^verbatim>\<open>BYTE\<close> and a \<^verbatim>\<open>char\<close> are 8-bit
  words, a \<^verbatim>\<open>DWORD\<close> and an \<^verbatim>\<open>int\<close> are 32-bit words (\<open>sint\<close> reads the
  \<^verbatim>\<open>int\<close>), a \<^verbatim>\<open>LONGLONG\<close> is a 64-bit word read by \<open>sint\<close>, with
  wrap-around multiplication. A \<^verbatim>\<open>std::string\<close> is the list of its bytes, a
  \<^verbatim>\<open>std::wstring\<close> path is a \<open>string\<close>.
\<close>

type_synonym BYTE = "8 word"
type_synonym DWORD = "32 word"
type_synonym LONGLONG = "64 word"
type_synonym HANDLE = nat

text \<open>
  Modelled from the spec: \<^verbatim>\<open>DISK_EXTENT\<close> of \<^verbatim>\<open>windows.h\<close>, one extent of the
  answer to the extent query: the index of a disk, and the start and the length of
  the extent on that disk, which the code does not read.
\<close>

record DISK_EXTENT =
  DiskNumber :: DWORD
  StartingOffset :: LONGLONG
  ExtentLength :: LONGLONG

text \<open>
  Modelled from the spec: \<^verbatim>\<open>VOLUME_DISK_EXTENTS\<close> of \<^verbatim>\<open>windows.h\<close>, a count followed
  by the extents. The structure is declared with an array of one extent
  (\<^verbatim>\<open>DISK_EXTENT Extents[ANYSIZE_ARRAY]\<close>), so the one local structure that the code
  passes as output buffer, with \<^verbatim>\<open>sizeof(diskExtents)\<close> as its size, has room for
  one extent.
\<close>

definition VOLUME_DISK_EXTENTS_room :: nat where
  "VOLUME_DISK_EXTENTS_room = 1"

text \<open>
  Modelled from the spec: \<^verbatim>\<open>STORAGE_DEVICE_DESCRIPTOR\<close> of \<^verbatim>\<open>windows.h\<close>, the
  reply of \<^verbatim>\<open>IOCTL_STORAGE_QUERY_PROPERTY\<close>, a byte buffer read through two offset
  fields. The two offsets, which the code reads through the cast of \<^verbatim>\<open>buffer\<close>,
  are fields of the record. \<open>written\<close> holds the bytes the query has written, from
  the first byte of \<^verbatim>\<open>BYTE buffer[1024]\<close> on; the query writes inside the buffer
  only, and what it does not write is zero (\<^verbatim>\<open>ZeroMemory\<close>).
\<close>

record STORAGE_DEVICE_DESCRIPTOR =
  SerialNumberOffset :: DWORD
  ProductIdOffset :: DWORD
  written :: "BYTE list"

text \<open>
  Modelled from the spec: \<^verbatim>\<open>DISK_GEOMETRY\<close> of \<^verbatim>\<open>windows.h\<close>, four integer fields;
  \<^verbatim>\<open>Cylinders\<close> is a \<^verbatim>\<open>LARGE_INTEGER\<close> read through \<^verbatim>\<open>QuadPart\<close>, the other
  three are \<^verbatim>\<open>DWORD\<close>s.
\<close>

record DISK_GEOMETRY =
  Cylinders :: LONGLONG
  TracksPerCylinder :: DWORD
  SectorsPerTrack :: DWORD
  BytesPerSector :: DWORD

text \<open>
  Modelled from the spec: the operating system the library calls, which is not
  part of the library. First the devices of the machine: which paths \<^verbatim>\<open>CreateFileW\<close>
  opens, the extents of each volume, and what each drive answers to the property
  and to the geometry query (\<open>None\<close>: the device refuses the query).
\<close>

record os_env =
  exists_path :: "string \<Rightarrow> bool"
  volume_disk_extents :: "string \<Rightarrow> DISK_EXTENT list option"
  storage_property :: "string \<Rightarrow> STORAGE_DEVICE_DESCRIPTOR option"
  drive_geometry :: "string \<Rightarrow> DISK_GEOMETRY option"

datatype ioctl =
  IOCTL_VOLUME_GET_VOLUME_DISK_EXTENTS
  | IOCTL_STORAGE_QUERY_PROPERTY
  | IOCTL_DISK_GET_DRIVE_GEOMETRY

datatype os_call =
  Call_CreateFileW string
  | Call_DeviceIoControl HANDLE ioctl
  | Call_CloseHandle HANDLE

text \<open>
  The mutable part of the system: the table of open handles with the path each one
  was opened on, and the calls made so far, oldest first.
\<close>

record os_state =
  open_handles :: "(HANDLE \<times> string) list"
  calls :: "os_call list"

primrec max_handle :: "(HANDLE \<times> string) list \<Rightarrow> HANDLE" where
  "max_handle [] = 0"
| "max_handle (e # es) = max (fst e) (max_handle es)"

definition fresh_handle :: "(HANDLE \<times> string) list \<Rightarrow> HANDLE" where
  "fresh_handle hs = Suc (max_handle hs)"

text \<open>
  Modelled from the spec: \<^verbatim>\<open>CreateFileW\<close>, which opens an existing path and hands
  out a handle that is not in use; \<open>None\<close> is \<^verbatim>\<open>INVALID_HANDLE_VALUE\<close>.
\<close>

definition CreateFileW :: "os_env \<Rightarrow> os_state \<Rightarrow> string \<Rightarrow> HANDLE option \<times> os_state" where
  "CreateFileW env st path =
     (if exists_path env path
      then (let h = fresh_handle (open_handles st)
            in (Some h, st\<lparr>open_handles := (h, path) # open_handles st,
                             calls := calls st @ [Call_CreateFileW path]\<rparr>))
      else (None, st\<lparr>calls := calls st @ [Call_CreateFileW path]\<rparr>))"

text \<open>Modelled from the spec: \<^verbatim>\<open>CloseHandle\<close> takes the handle out of the table.\<close>

definition CloseHandle :: "os_state \<Rightarrow> HANDLE \<Rightarrow> os_state" where
  "CloseHandle st h =
     st\<lparr>open_handles := filter (\<lambda>e. fst e \<noteq> h) (open_handles st),
        calls := calls st @ [Call_CloseHandle h]\<rparr>"

text \<open>
  Modelled from the spec: \<^verbatim>\<open>DeviceIoControl\<close>. The handle selects the device; a
  handle that is not open, or a device that refuses the code, makes the call fail.
\<close>

definition DeviceIoControl ::
  "(string \<Rightarrow> 'a option) \<Rightarrow> ioctl \<Rightarrow> os_state \<Rightarrow> HANDLE \<Rightarrow> 'a option \<times> os_state" where
  "DeviceIoControl answer code st h =
     (case map_of (open_handles st) h of
        None \<Rightarrow> None
      | Some path \<Rightarrow> answer path,
      st\<lparr>calls := calls st @ [Call_DeviceIoControl h code]\<rparr>)"

text \<open>
  Modelled from the spec: the extent query into an output buffer with room for
  \<open>room\<close> extents. A volume with more extents than the buffer holds makes the call
  fail (\<^verbatim>\<open>ERROR_MORE_DATA\<close>).
\<close>

definition query_extents :: "os_env \<Rightarrow> nat \<Rightarrow> string \<Rightarrow> DISK_EXTENT list option" where
  "query_extents env room path =
     (case volume_disk_extents env path of
        None \<Rightarrow> None
      | Some Extents \<Rightarrow> if length Extents \<le> room then Some Extents else None)"

section \<open>DiskUtils\<close>

subsection \<open>GetVolumeDiskExtents\<close>

text \<open>
  The loop \<^verbatim>\<open>for (DWORD i = 0; i < diskExtents.NumberOfDiskExtents; ++i)\<close> with its
  \<^verbatim>\<open>push_back\<close>; the extents answered are a list, \<^verbatim>\<open>NumberOfDiskExtents\<close> its length.
\<close>

function push_disk_numbers :: "DISK_EXTENT list \<Rightarrow> nat \<Rightarrow> DWORD list \<Rightarrow> DWORD list" where
  "push_disk_numbers Extents i diskNumbers =
     (if i < length Extents
      then push_disk_numbers Extents (Suc i) (diskNumbers @ [DiskNumber (Extents ! i)])
      else diskNumbers)"
  by pat_completeness auto
termination
  by (relation "measure (\<lambda>(Extents, i, diskNumbers). length Extents - i)") auto

declare push_disk_numbers.simps [simp del]

text \<open>
  The query receives the address of the one local \<^verbatim>\<open>VOLUME_DISK_EXTENTS diskExtents\<close>
  and \<^verbatim>\<open>sizeof(diskExtents)\<close>.
\<close>

definition GetVolumeDiskExtents ::
  "os_env \<Rightarrow> os_state \<Rightarrow> string \<Rightarrow> DWORD list \<Rightarrow> bool \<times> DWORD list \<times> os_state" where
  "GetVolumeDiskExtents env st volumePath diskNumbers =
     (case CreateFileW env st volumePath of
        (None, st1) \<Rightarrow> (False, diskNumbers, st1)
      | (Some hVolume, st1) \<Rightarrow>
          (case DeviceIoControl (query_extents env VOLUME_DISK_EXTENTS_room)
                  IOCTL_VOLUME_GET_VOLUME_DISK_EXTENTS st1 hVolume of
             (None, st2) \<Rightarrow> (False, diskNumbers, CloseHandle st2 hVolume)
           | (Some diskExtents, st2) \<Rightarrow>
               (True, push_disk_numbers diskExtents 0 diskNumbers,
                CloseHandle st2 hVolume)))"

subsection \<open>GetDiskProperties\<close>

text \<open>\<^verbatim>\<open>std::to_wstring(int)\<close> and the device path built from it.\<close>

fun decimal :: "nat \<Rightarrow> string" where
  "decimal n =
     (if n < 10 then [''0123456789'' ! n]
      else decimal (n div 10) @ [''0123456789'' ! (n mod 10)])"

declare decimal.simps [simp del]

definition to_wstring :: "DWORD \<Rightarrow> string" where
  "to_wstring diskNumber =
     (if sint diskNumber < 0 then CHR ''-'' # decimal (nat (- sint diskNumber))
      else decimal (nat (sint diskNumber)))"

definition devicePath :: "DWORD \<Rightarrow> string" where
  "devicePath diskNumber =
     [CHR 0x5C, CHR 0x5C, CHR ''.'', CHR 0x5C] @ ''PhysicalDrive'' @ to_wstring diskNumber"

text \<open>
  The memory the scan works on, indexed from the first byte of \<^verbatim>\<open>buffer\<close>. The
  indices below 1024 are \<^verbatim>\<open>BYTE buffer[1024]\<close>: zero (\<^verbatim>\<open>ZeroMemory\<close>) except for
  what the query has written. The indices from 1024 on are the memory of the
  process that follows the array on the stack; it is no part of the reply, its
  content is whatever the process left there, and an address with no memory
  mapped (\<open>None\<close>) cannot be read: the read is an access violation, which ends the
  process.
\<close>

type_synonym memory = "nat \<Rightarrow> BYTE option"

datatype fault = Access_violation nat

definition buffer_byte :: "STORAGE_DEVICE_DESCRIPTOR \<Rightarrow> nat \<Rightarrow> BYTE" where
  "buffer_byte d i = (if i < length (written d) then written d ! i else 0)"

definition buffer_memory :: "STORAGE_DEVICE_DESCRIPTOR \<Rightarrow> memory \<Rightarrow> memory" where
  "buffer_memory d behind i =
     (if i < 1024 then Some (buffer_byte d i) else behind (i - 1024))"

text \<open>
  What follows the buffer differs from one call to the next. \<open>stack t i\<close> is the
  byte at index \<open>1024 + i\<close> at the moment when \<open>t\<close> system calls have been made.
\<close>

type_synonym stack_memory = "nat \<Rightarrow> memory"

text \<open>
  The scan \<^verbatim>\<open>while (p[len] != '\0' && len < sizeof(buffer)) ++len;\<close> where \<open>p\<close> is
  the offset of the field from \<^verbatim>\<open>buffer\<close>. Each turn first reads \<^verbatim>\<open>p[len]\<close> and only
  then compares \<open>len\<close> with 1024. \<open>scan\<close> returns the final length together with the
  indices (relative to \<^verbatim>\<open>buffer\<close>) it has read, in order, or the fault.
\<close>

function scan :: "memory \<Rightarrow> nat \<Rightarrow> nat \<Rightarrow> nat list \<Rightarrow> fault + nat \<times> nat list" where
  "scan mem p len rd =
     (case mem (p + len) of
        None \<Rightarrow> Inl (Access_violation (p + len))
      | Some b \<Rightarrow>
          if b \<noteq> 0 \<and> len < 1024
          then scan mem p (Suc len) (rd @ [p + len])
          else Inr (len, rd @ [p + len]))"
  by pat_completeness auto
termination
  by (relation "measure (\<lambda>(mem, p, len, rd). 1024 - len)") auto

declare scan.simps [simp del]

text \<open>\<^verbatim>\<open>std::string(p, len)\<close> copies the \<open>len\<close> bytes from \<open>p\<close> on.\<close>

fun copy_bytes :: "memory \<Rightarrow> nat list \<Rightarrow> fault + BYTE list" where
  "copy_bytes mem [] = Inr []"
| "copy_bytes mem (i # is) =
     (case mem i of
        None \<Rightarrow> Inl (Access_violation i)
      | Some b \<Rightarrow>
          (case copy_bytes mem is of
             Inl f \<Rightarrow> Inl f
           | Inr bs \<Rightarrow> Inr (b # bs)))"

text \<open>
  One of the two blocks \<^verbatim>\<open>if (deviceDescriptor->...Offset != 0) { ... }\<close>: the new
  value of the string, which is its old value \<open>text\<close> when the offset is zero, and
  the indices read to get it.
\<close>

definition store_field :: "memory \<Rightarrow> DWORD \<Rightarrow> BYTE list \<Rightarrow> fault + BYTE list \<times> nat list" where
  "store_field mem Offset text =
     (if Offset \<noteq> 0
      then (case scan mem (unat Offset) 0 [] of
              Inl f \<Rightarrow> Inl f
            | Inr (len, rd) \<Rightarrow>
                (case copy_bytes mem [unat Offset ..< unat Offset + len] of
                   Inl f \<Rightarrow> Inl f
                 | Inr bs \<Rightarrow> Inr (bs, rd @ [unat Offset ..< unat Offset + len])))
      else Inr (text, []))"

text \<open>
  The three members of \<^verbatim>\<open>DiskPropertiesFetcher\<close>, which are also the three
  out-parameters of \<^verbatim>\<open>GetDiskProperties\<close> (\<open>sizeQuadPart\<close> is \<^verbatim>\<open>size.QuadPart\<close>).
\<close>

record disk_properties =
  serialNumber :: "BYTE list"
  model :: "BYTE list"
  sizeQuadPart :: LONGLONG

definition geometry_size :: "DISK_GEOMETRY \<Rightarrow> LONGLONG" where
  "geometry_size dg =
     Cylinders dg * ucast (TracksPerCylinder dg) * ucast (SectorsPerTrack dg)
       * ucast (BytesPerSector dg)"

text \<open>
  The function returns (\<open>Inr\<close>) its boolean, the three out-parameters and the state
  of the system, or the process ends inside it (\<open>Inl\<close>).
\<close>

definition GetDiskProperties ::
  "os_env \<Rightarrow> stack_memory \<Rightarrow> os_state \<Rightarrow> DWORD \<Rightarrow> disk_properties \<Rightarrow>
   fault + bool \<times> disk_properties \<times> os_state" where
  "GetDiskProperties env stack st diskNumber out =
     (case CreateFileW env st (devicePath diskNumber) of
        (None, st1) \<Rightarrow> Inr (False, out, st1)
      | (Some hDevice, st1) \<Rightarrow>
          (case DeviceIoControl (storage_property env) IOCTL_STORAGE_QUERY_PROPERTY st1 hDevice of
             (None, st2) \<Rightarrow> Inr (False, out, CloseHandle st2 hDevice)
           | (Some deviceDescriptor, st2) \<Rightarrow>
               (let mem = buffer_memory deviceDescriptor (stack (length (calls st2)))
                in case store_field mem (SerialNumberOffset deviceDescriptor)
                          (serialNumber out) of
                     Inl f \<Rightarrow> Inl f
                   | Inr (serial, rd1) \<Rightarrow>
                       (case store_field mem (ProductIdOffset deviceDescriptor)
                               (model out) of
                          Inl f \<Rightarrow> Inl f
                        | Inr (product, rd2) \<Rightarrow>
                            (case DeviceIoControl (drive_geometry env)
                                    IOCTL_DISK_GET_DRIVE_GEOMETRY st2 hDevice of
                               (None, st3) \<Rightarrow>
                                 Inr (False, out\<lparr>serialNumber := serial, model := product\<rparr>,
                                      CloseHandle st3 hDevice)
                             | (Some dg, st3) \<Rightarrow>
                                 Inr (True,
                                      out\<lparr>serialNumber := serial, model := product,
                                          sizeQuadPart := geometry_size dg\<rparr>,
                                      CloseHandle st3 hDevice))))))"

section \<open>DiskPropertiesFetcher\<close>

text \<open>The loop \<^verbatim>\<open>for (int diskNumber : diskNumbers)\<close> of the constructor.\<close>

fun try_disks ::
  "os_env \<Rightarrow> stack_memory \<Rightarrow> os_state \<Rightarrow> DWORD list \<Rightarrow> disk_properties \<Rightarrow>
   fault + disk_properties \<times> os_state" where
  "try_disks env stack st [] this = Inr (this, st)"
| "try_disks env stack st (diskNumber # rest) this =
     (case GetDiskProperties env stack st diskNumber this of
        Inl f \<Rightarrow> Inl f
      | Inr (ok, this1, st1) \<Rightarrow>
          if ok then Inr (this1, st1) else try_disks env stack st1 rest this1)"

definition initial_members :: disk_properties where
  "initial_members = \<lparr>serialNumber = [], model = [], sizeQuadPart = 0\<rparr>"

definition DiskPropertiesFetcher ::
  "os_env \<Rightarrow> stack_memory \<Rightarrow> os_state \<Rightarrow> string \<Rightarrow> fault + disk_properties \<times> os_state" where
  "DiskPropertiesFetcher env stack st volumePath =
     (case GetVolumeDiskExtents env st volumePath [] of
        (ok, diskNumbers, st1) \<Rightarrow>
          if ok then try_disks env stack st1 diskNumbers initial_members
          else Inr (initial_members, st1))"

definition DiskSerialNumber :: "disk_properties \<Rightarrow> BYTE list" where
  "DiskSerialNumber this = serialNumber this"

definition DiskModel :: "disk_properties \<Rightarrow> BYTE list" where
  "DiskModel this = model this"

text \<open>
  \<^verbatim>\<open>static_cast<DWORD>(size.QuadPart / (1024 * 1024 * 1024))\<close>: a signed 64-bit
  division, which truncates towards zero, then the low 32 bits of the quotient.
\<close>

definition DiskSize :: "disk_properties \<Rightarrow> DWORD" where
  "DiskSize this = word_of_int (sint (sizeQuadPart this) sdiv (1024 * 1024 * 1024))"

section \<open>Descriptors, geometries and machines to run the code on\<close>

text \<open>
  A descriptor holds the text \<open>s\<close> for a field with offset \<open>off\<close> when the field is
  absent (offset 0) and \<open>s\<close> is empty, or when the bytes of \<open>s\<close>, none of them zero,
  lie at \<open>off\<close> inside the 1024 bytes of the buffer and a zero byte inside the buffer
  ends them.
\<close>

definition holds_text :: "STORAGE_DEVICE_DESCRIPTOR \<Rightarrow> DWORD \<Rightarrow> BYTE list \<Rightarrow> bool" where
  "holds_text d off s =
     (if off = 0 then s = []
      else unat off + length s < 1024
         \<and> map (buffer_byte d) [unat off ..< unat off + length s] = s
         \<and> 0 \<notin> set s
         \<and> buffer_byte d (unat off + length s) = 0)"

text \<open>The capacity a geometry describes, as an integer without any width.\<close>

definition geometry_bytes :: "DISK_GEOMETRY \<Rightarrow> int" where
  "geometry_bytes dg =
     sint (Cylinders dg) * uint (TracksPerCylinder dg) * uint (SectorsPerTrack dg)
       * uint (BytesPerSector dg)"

definition idle :: os_state where
  "idle = \<lparr>open_handles = [], calls = []\<rparr>"

definition volC :: string where
  "volC = [CHR 0x5C, CHR 0x5C, CHR ''.'', CHR 0x5C] @ ''C:''"

definition extent_on :: "DWORD \<Rightarrow> DISK_EXTENT" where
  "extent_on n = \<lparr>DiskNumber = n, StartingOffset = 0, ExtentLength = 1048576\<rparr>"

text \<open>
  A machine with the volume \<^verbatim>\<open>\\.\C:\<close>, whose extents are \<open>extents\<close>, and the
  physical drives listed in \<open>disks\<close>, each with its answers to the property and
  the geometry query. No other path opens.
\<close>

definition find_disk ::
  "(DWORD \<times> 'a) list \<Rightarrow> string \<Rightarrow> (DWORD \<times> 'a) option" where
  "find_disk disks p = find (\<lambda>d. devicePath (fst d) = p) disks"

definition stub ::
  "DISK_EXTENT list option \<Rightarrow>
   (DWORD \<times> STORAGE_DEVICE_DESCRIPTOR option \<times> DISK_GEOMETRY option) list \<Rightarrow> os_env" where
  "stub extents disks =
     \<lparr>exists_path =
        (\<lambda>p. if p = volC then True
             else (case find_disk disks p of None \<Rightarrow> False | Some d \<Rightarrow> True)),
      volume_disk_extents = (\<lambda>p. if p = volC then extents else None),
      storage_property =
        (\<lambda>p. case find_disk disks p of None \<Rightarrow> None | Some d \<Rightarrow> fst (snd d)),
      drive_geometry =
        (\<lambda>p. case find_disk disks p of None \<Rightarrow> None | Some d \<Rightarrow> snd (snd d))\<rparr>"

text \<open>
  Serial number \<^verbatim>\<open>S1\<close> at offset 40 and model \<^verbatim>\<open>M1\<close> at offset 60, each followed
  by a zero byte.
\<close>

definition descriptor_S1_M1 :: STORAGE_DEVICE_DESCRIPTOR where
  "descriptor_S1_M1 =
     \<lparr>SerialNumberOffset = 40, ProductIdOffset = 60,
      written = replicate 40 0 @ [0x53, 0x31, 0] @ replicate 17 0 @ [0x4D, 0x31, 0]\<rparr>"

text \<open>No serial number, model \<^verbatim>\<open>M2\<close> at offset 60.\<close>

definition descriptor_M2 :: STORAGE_DEVICE_DESCRIPTOR where
  "descriptor_M2 =
     \<lparr>SerialNumberOffset = 0, ProductIdOffset = 60,
      written = replicate 60 0 @ [0x4D, 0x32, 0]\<rparr>"

text \<open>
  The serial number starts at the last byte of the buffer and has no terminator
  there: the buffer is zero except for \<^verbatim>\<open>A\<close> at index 1023.
\<close>

definition descriptor_unterminated :: STORAGE_DEVICE_DESCRIPTOR where
  "descriptor_unterminated =
     \<lparr>SerialNumberOffset = 1023, ProductIdOffset = 0,
      written = replicate 1023 0 @ [0x41]\<rparr>"

text \<open>
  Three stacks: no memory mapped behind the buffer; the byte \<^verbatim>\<open>A\<close> and then zeros
  behind the buffer at every moment; and a stack whose first byte behind the buffer
  is \<^verbatim>\<open>A\<close> during the first six system calls and \<^verbatim>\<open>"\<close> (0x22) afterwards.
\<close>

definition stack_unmapped :: stack_memory where
  "stack_unmapped = (\<lambda>t i. None)"

definition stack_A :: stack_memory where
  "stack_A = (\<lambda>t i. if i = 0 then Some 0x41 else Some 0)"

definition stack_changing :: stack_memory where
  "stack_changing =
     (\<lambda>t i. if i = 0 then (if t < 6 then Some 0x41 else Some 0x22) else Some 0)"

definition geometry_8GB :: DISK_GEOMETRY where
  "geometry_8GB =
     \<lparr>Cylinders = 1000, TracksPerCylinder = 255, SectorsPerTrack = 63,
      BytesPerSector = 512\<rparr>"

definition geometry_4EiB :: DISK_GEOMETRY where
  "geometry_4EiB =
     \<lparr>Cylinders = 4611686018427387904, TracksPerCylinder = 1, SectorsPerTrack = 1,
      BytesPerSector = 1\<rparr>"

text \<open>One cylinder of \<open>2 ^ 32 - 1\<close> tracks with \<open>2 ^ 32 - 1\<close> sectors of one byte.\<close>

definition geometry_wide :: DISK_GEOMETRY where
  "geometry_wide =
     \<lparr>Cylinders = 1, TracksPerCylinder = 0xFFFFFFFF, SectorsPerTrack = 0xFFFFFFFF,
      BytesPerSector = 1\<rparr>"


section \<open>Handles\<close>

lemma le_max_handle: "e \<in> set hs \<Longrightarrow> fst e \<le> max_handle hs"
  by (induction hs) auto

lemma fresh_handle_new: "e \<in> set hs \<Longrightarrow> fst e \<noteq> fresh_handle hs"
  using le_max_handle [of e hs] by (simp add: fresh_handle_def)

lemma filter_fresh_handle: "filter (\<lambda>e. fst e \<noteq> fresh_handle hs) hs = hs"
  by (simp add: filter_id_conv fresh_handle_new)

lemma GetVolumeDiskExtents_handles:
  "open_handles (snd (snd (GetVolumeDiskExtents env st volumePath diskNumbers))) = open_handles st"
  by (simp add: GetVolumeDiskExtents_def CreateFileW_def DeviceIoControl_def CloseHandle_def
      Let_def filter_fresh_handle split: option.splits)

lemma GetDiskProperties_handles:
  "GetDiskProperties env stack st diskNumber out = Inr (ok, out', st') \<Longrightarrow>
   open_handles st' = open_handles st"
  by (auto simp add: GetDiskProperties_def CreateFileW_def DeviceIoControl_def CloseHandle_def
      Let_def filter_fresh_handle split: option.splits sum.splits prod.splits if_splits)

lemma try_disks_handles:
  "try_disks env stack st diskNumbers this = Inr (this', st') \<Longrightarrow>
   open_handles st' = open_handles st"
proof (induction diskNumbers arbitrary: st this)
  case Nil
  then show ?case by simp
next
  case (Cons d ds)
  show ?case
  proof (cases "GetDiskProperties env stack st d this")
    case (Inl f)
    with Cons.prems show ?thesis by simp
  next
    case (Inr r)
    obtain ok this1 st1 where r: "r = (ok, this1, st1)"
      by (cases r) auto
    with Inr have h: "open_handles st1 = open_handles st"
      by (auto dest: GetDiskProperties_handles)
    show ?thesis
    proof (cases ok)
      case True
      with Cons.prems Inr r h show ?thesis by simp
    next
      case False
      with Cons.prems Inr r have "try_disks env stack st1 ds this1 = Inr (this', st')"
        by simp
      with Cons.IH h show ?thesis by simp
    qed
  qed
qed

lemma DiskPropertiesFetcher_handles:
  "DiskPropertiesFetcher env stack st volumePath = Inr (this, st') \<Longrightarrow>
   open_handles st' = open_handles st"
proof -
  assume a: "DiskPropertiesFetcher env stack st volumePath = Inr (this, st')"
  obtain ok ds st1 where r: "GetVolumeDiskExtents env st volumePath [] = (ok, ds, st1)"
    by (cases "GetVolumeDiskExtents env st volumePath []") auto
  have h: "open_handles st1 = open_handles st"
    using GetVolumeDiskExtents_handles [of env st volumePath "[]"] r by simp
  show ?thesis
  proof (cases ok)
    case True
    with a r have "try_disks env stack st1 ds initial_members = Inr (this, st')"
      by (simp add: DiskPropertiesFetcher_def)
    with h show ?thesis by (simp add: try_disks_handles)
  next
    case False
    with a r h show ?thesis by (auto simp add: DiskPropertiesFetcher_def)
  qed
qed

text \<open>The calls each function makes, in order.\<close>

lemma GetVolumeDiskExtents_calls:
  "calls (snd (snd (GetVolumeDiskExtents env st volumePath diskNumbers))) =
     calls st @
     (if exists_path env volumePath
      then [Call_CreateFileW volumePath,
            Call_DeviceIoControl (fresh_handle (open_handles st))
              IOCTL_VOLUME_GET_VOLUME_DISK_EXTENTS,
            Call_CloseHandle (fresh_handle (open_handles st))]
      else [Call_CreateFileW volumePath])"
  by (simp add: GetVolumeDiskExtents_def CreateFileW_def DeviceIoControl_def CloseHandle_def
      Let_def split: option.splits)

lemma GetDiskProperties_calls:
  "GetDiskProperties env stack st diskNumber out = Inr (ok, out', st') \<Longrightarrow>
   calls st' =
     calls st @
     (if exists_path env (devicePath diskNumber)
      then (if storage_property env (devicePath diskNumber) = None
            then [Call_CreateFileW (devicePath diskNumber),
                  Call_DeviceIoControl (fresh_handle (open_handles st))
                    IOCTL_STORAGE_QUERY_PROPERTY,
                  Call_CloseHandle (fresh_handle (open_handles st))]
            else [Call_CreateFileW (devicePath diskNumber),
                  Call_DeviceIoControl (fresh_handle (open_handles st))
                    IOCTL_STORAGE_QUERY_PROPERTY,
                  Call_DeviceIoControl (fresh_handle (open_handles st))
                    IOCTL_DISK_GET_DRIVE_GEOMETRY,
                  Call_CloseHandle (fresh_handle (open_handles st))])
      else [Call_CreateFileW (devicePath diskNumber)])"
  by (auto simp add: GetDiskProperties_def CreateFileW_def DeviceIoControl_def CloseHandle_def
      Let_def split: option.splits sum.splits prod.splits if_splits)

section \<open>The resolver\<close>

lemma push_disk_numbers_drop:
  "i \<le> length Extents \<Longrightarrow>
   push_disk_numbers Extents i diskNumbers = diskNumbers @ map DiskNumber (drop i Extents)"
proof (induction Extents i diskNumbers rule: push_disk_numbers.induct)
  case (1 Extents i diskNumbers)
  show ?case
  proof (cases "i < length Extents")
    case True
    then have "drop i Extents = Extents ! i # drop (Suc i) Extents"
      by (simp add: Cons_nth_drop_Suc)
    with True "1.IH" show ?thesis
      by (simp add: push_disk_numbers.simps [of Extents i])
  next
    case False
    with "1.prems" have "i = length Extents" by simp
    then show ?thesis
      by (simp add: push_disk_numbers.simps [of Extents "length Extents"])
  qed
qed

text \<open>An answer that fits the buffer is appended whole.\<close>

lemma GetVolumeDiskExtents_fits:
  assumes "exists_path env volumePath"
    and "volume_disk_extents env volumePath = Some Extents"
    and "length Extents \<le> VOLUME_DISK_EXTENTS_room"
  shows "fst (GetVolumeDiskExtents env st volumePath diskNumbers) = True"
    and "fst (snd (GetVolumeDiskExtents env st volumePath diskNumbers)) =
           diskNumbers @ map DiskNumber Extents"
  using assms
  by (simp_all add: GetVolumeDiskExtents_def CreateFileW_def DeviceIoControl_def Let_def
      query_extents_def push_disk_numbers_drop)

text \<open>A volume with more extents than the structure holds is not resolved.\<close>

lemma GetVolumeDiskExtents_more_data:
  assumes "volume_disk_extents env volumePath = Some Extents"
    and "VOLUME_DISK_EXTENTS_room < length Extents"
  shows "fst (GetVolumeDiskExtents env st volumePath diskNumbers) = False"
    and "fst (snd (GetVolumeDiskExtents env st volumePath diskNumbers)) = diskNumbers"
  using assms
  by (simp_all add: GetVolumeDiskExtents_def CreateFileW_def DeviceIoControl_def Let_def
      query_extents_def)

text \<open>
  C6. Claimed: when the extent query answers \<open>N\<close> extents the resolver appends
  all \<open>N\<close> disk numbers and reports success. The volume here has three extents, on
  the disks 2, 2 and 1. The resolver passes one \<^verbatim>\<open>VOLUME_DISK_EXTENTS\<close>, which has
  room for one extent, so the query fails; the resolver appends nothing to the
  list, which held 7, and returns false. With one extent it returns true and
  appends the disk number.
\<close>

theorem GetVolumeDiskExtents_fails_on_three_extents:
  "GetVolumeDiskExtents (stub (Some [extent_on 2, extent_on 2, extent_on 1]) []) idle volC [7]
     = (False, [7],
        \<lparr>open_handles = [],
         calls = [Call_CreateFileW volC,
                  Call_DeviceIoControl 1 IOCTL_VOLUME_GET_VOLUME_DISK_EXTENTS,
                  Call_CloseHandle 1]\<rparr>)
   \<and> GetVolumeDiskExtents (stub (Some [extent_on 2]) []) idle volC [7]
     = (True, [7, 2],
        \<lparr>open_handles = [],
         calls = [Call_CreateFileW volC,
                  Call_DeviceIoControl 1 IOCTL_VOLUME_GET_VOLUME_DISK_EXTENTS,
                  Call_CloseHandle 1]\<rparr>)"
  by code_simp

text \<open>
  C5. Claimed: on a volume that resolves to several disk indices the fetcher tries
  them in order and adopts the first read that succeeds. The volume here has its
  extents on the disks 1 and 2; drive 1 does not open, drive 2 answers both
  queries. The extent query fails for want of room (see C6), so the constructor
  never enters its loop: no drive is opened and the members stay empty and zero.
  The loop itself, run on the list of the two indices, tries disk 1, then disk 2,
  and adopts what disk 2 gives.
\<close>

theorem fetch_never_tries_second_disk:
  "DiskPropertiesFetcher
     (stub (Some [extent_on 1, extent_on 2]) [(2, Some descriptor_S1_M1, Some geometry_8GB)])
     stack idle volC
     = Inr (\<lparr>serialNumber = [], model = [], sizeQuadPart = 0\<rparr>,
            \<lparr>open_handles = [],
             calls = [Call_CreateFileW volC,
                      Call_DeviceIoControl 1 IOCTL_VOLUME_GET_VOLUME_DISK_EXTENTS,
                      Call_CloseHandle 1]\<rparr>)
   \<and> GetDiskProperties
       (stub (Some [extent_on 1, extent_on 2]) [(2, Some descriptor_S1_M1, Some geometry_8GB)])
       stack idle 1 initial_members
     = Inr (False, initial_members,
            \<lparr>open_handles = [], calls = [Call_CreateFileW (devicePath 1)]\<rparr>)
   \<and> try_disks
       (stub (Some [extent_on 1, extent_on 2]) [(2, Some descriptor_S1_M1, Some geometry_8GB)])
       stack idle [1, 2] initial_members
     = Inr (\<lparr>serialNumber = [0x53, 0x31], model = [0x4D, 0x31], sizeQuadPart = 8225280000\<rparr>,
            \<lparr>open_handles = [],
             calls = [Call_CreateFileW (devicePath 1),
                      Call_CreateFileW (devicePath 2),
                      Call_DeviceIoControl 1 IOCTL_STORAGE_QUERY_PROPERTY,
                      Call_DeviceIoControl 1 IOCTL_DISK_GET_DRIVE_GEOMETRY,
                      Call_CloseHandle 1]\<rparr>)"
  by code_simp

section \<open>Release of handles\<close>

text \<open>
  C7. Whatever the machine answers, the resolver leaves the table of open handles
  exactly as it found it, and so do the property reader and a whole fetch whenever
  they return. The calls they make are: the open alone when it fails; otherwise
  the open, the queries, and last the close of the handle just opened, on the
  success path as on every failure path (the reader skips the geometry query when
  the property query failed).
\<close>

theorem handles_released:
  "open_handles (snd (snd (GetVolumeDiskExtents env st volumePath diskNumbers))) = open_handles st
   \<and> (\<forall>ok out' st'. GetDiskProperties env stack st diskNumber out = Inr (ok, out', st') \<longrightarrow>
        open_handles st' = open_handles st)
   \<and> (\<forall>this st'. DiskPropertiesFetcher env stack st volumePath = Inr (this, st') \<longrightarrow>
        open_handles st' = open_handles st)
   \<and> calls (snd (snd (GetVolumeDiskExtents env st volumePath diskNumbers))) =
       calls st @
       (if exists_path env volumePath
        then [Call_CreateFileW volumePath,
              Call_DeviceIoControl (fresh_handle (open_handles st))
                IOCTL_VOLUME_GET_VOLUME_DISK_EXTENTS,
              Call_CloseHandle (fresh_handle (open_handles st))]
        else [Call_CreateFileW volumePath])
   \<and> (\<forall>ok out' st'. GetDiskProperties env stack st diskNumber out = Inr (ok, out', st') \<longrightarrow>
        calls st' =
          calls st @
          (if exists_path env (devicePath diskNumber)
           then (if storage_property env (devicePath diskNumber) = None
                 then [Call_CreateFileW (devicePath diskNumber),
                       Call_DeviceIoControl (fresh_handle (open_handles st))
                         IOCTL_STORAGE_QUERY_PROPERTY,
                       Call_CloseHandle (fresh_handle (open_handles st))]
                 else [Call_CreateFileW (devicePath diskNumber),
                       Call_DeviceIoControl (fresh_handle (open_handles st))
                         IOCTL_STORAGE_QUERY_PROPERTY,
                       Call_DeviceIoControl (fresh_handle (open_handles st))
                         IOCTL_DISK_GET_DRIVE_GEOMETRY,
                       Call_CloseHandle (fresh_handle (open_handles st))])
           else [Call_CreateFileW (devicePath diskNumber)]))"
  using GetVolumeDiskExtents_handles [of env st volumePath diskNumbers]
    GetDiskProperties_handles [of env stack st diskNumber out]
    DiskPropertiesFetcher_handles [of env stack st volumePath]
    GetVolumeDiskExtents_calls [of env st volumePath diskNumbers]
    GetDiskProperties_calls [of env stack st diskNumber out]
  by (intro conjI allI impI)

text \<open>
  The witness has the handle 4 open on entry. The reader returns on its three
  paths after the open: success on drive 0, a geometry failure on drive 1 and a
  property-query failure on drive 2.
\<close>

theorem handles_released_witness:
  "GetDiskProperties
     (stub (Some [extent_on 0])
        [(0, Some descriptor_S1_M1, Some geometry_8GB), (1, Some descriptor_S1_M1, None),
         (2, None, None)])
     stack_unmapped \<lparr>open_handles = [(4, volC)], calls = []\<rparr> 1 initial_members
     = Inr (False, \<lparr>serialNumber = [0x53, 0x31], model = [0x4D, 0x31], sizeQuadPart = 0\<rparr>,
            \<lparr>open_handles = [(4, volC)],
             calls = [Call_CreateFileW (devicePath 1),
                      Call_DeviceIoControl 5 IOCTL_STORAGE_QUERY_PROPERTY,
                      Call_DeviceIoControl 5 IOCTL_DISK_GET_DRIVE_GEOMETRY,
                      Call_CloseHandle 5]\<rparr>)
   \<and> GetDiskProperties
     (stub (Some [extent_on 0])
        [(0, Some descriptor_S1_M1, Some geometry_8GB), (1, Some descriptor_S1_M1, None),
         (2, None, None)])
     stack_unmapped \<lparr>open_handles = [(4, volC)], calls = []\<rparr> 2 initial_members
     = Inr (False, initial_members,
            \<lparr>open_handles = [(4, volC)],
             calls = [Call_CreateFileW (devicePath 2),
                      Call_DeviceIoControl 5 IOCTL_STORAGE_QUERY_PROPERTY,
                      Call_CloseHandle 5]\<rparr>)
   \<and> DiskPropertiesFetcher
     (stub (Some [extent_on 0])
        [(0, Some descriptor_S1_M1, Some geometry_8GB), (1, Some descriptor_S1_M1, None),
         (2, None, None)])
     stack_unmapped \<lparr>open_handles = [(4, volC)], calls = []\<rparr> volC
     = Inr (\<lparr>serialNumber = [0x53, 0x31], model = [0x4D, 0x31], sizeQuadPart = 8225280000\<rparr>,
            \<lparr>open_handles = [(4, volC)],
             calls = [Call_CreateFileW volC,
                      Call_DeviceIoControl 5 IOCTL_VOLUME_GET_VOLUME_DISK_EXTENTS,
                      Call_CloseHandle 5,
                      Call_CreateFileW (devicePath 0),
                      Call_DeviceIoControl 5 IOCTL_STORAGE_QUERY_PROPERTY,
                      Call_DeviceIoControl 5 IOCTL_DISK_GET_DRIVE_GEOMETRY,
                      Call_CloseHandle 5]\<rparr>)
   \<and> open_handles (snd (snd (GetVolumeDiskExtents
     (stub (Some [extent_on 0])
        [(0, Some descriptor_S1_M1, Some geometry_8GB), (1, Some descriptor_S1_M1, None),
         (2, None, None)])
     \<lparr>open_handles = [(4, volC)], calls = []\<rparr> volC []))) = [(4, volC)]"
proof -
  let ?env = "stub (Some [extent_on 0])
        [(0, Some descriptor_S1_M1, Some geometry_8GB), (1, Some descriptor_S1_M1, None),
         (2, None, None)]"
  let ?st = "\<lparr>open_handles = [(4, volC)], calls = []\<rparr>"
  let ?g = "\<lparr>serialNumber = [0x53, 0x31], model = [0x4D, 0x31], sizeQuadPart = 0\<rparr>"
  have r1: "GetDiskProperties ?env stack_unmapped ?st 1 initial_members
     = Inr (False, ?g,
            \<lparr>open_handles = [(4, volC)],
             calls = [Call_CreateFileW (devicePath 1),
                      Call_DeviceIoControl 5 IOCTL_STORAGE_QUERY_PROPERTY,
                      Call_DeviceIoControl 5 IOCTL_DISK_GET_DRIVE_GEOMETRY,
                      Call_CloseHandle 5]\<rparr>)"
    by code_simp
  have r2: "GetDiskProperties ?env stack_unmapped ?st 2 initial_members
     = Inr (False, initial_members,
            \<lparr>open_handles = [(4, volC)],
             calls = [Call_CreateFileW (devicePath 2),
                      Call_DeviceIoControl 5 IOCTL_STORAGE_QUERY_PROPERTY,
                      Call_CloseHandle 5]\<rparr>)"
    by code_simp
  have r3: "DiskPropertiesFetcher ?env stack_unmapped ?st volC
     = Inr (\<lparr>serialNumber = [0x53, 0x31], model = [0x4D, 0x31], sizeQuadPart = 8225280000\<rparr>,
            \<lparr>open_handles = [(4, volC)],
             calls = [Call_CreateFileW volC,
                      Call_DeviceIoControl 5 IOCTL_VOLUME_GET_VOLUME_DISK_EXTENTS,
                      Call_CloseHandle 5,
                      Call_CreateFileW (devicePath 0),
                      Call_DeviceIoControl 5 IOCTL_STORAGE_QUERY_PROPERTY,
                      Call_DeviceIoControl 5 IOCTL_DISK_GET_DRIVE_GEOMETRY,
                      Call_CloseHandle 5]\<rparr>)"
    by code_simp
  from handles_released [where env = ?env and st = ?st and stack = stack_unmapped
      and diskNumber = 1 and out = initial_members and volumePath = volC
      and diskNumbers = "[]"] r1 r2 r3
  show ?thesis by simp
qed

section \<open>The scan for the terminating zero\<close>

lemma scan_returns:
  "scan mem p len rd = Inr (n, rd') \<Longrightarrow>
   len \<le> n \<and> rd' = rd @ map (\<lambda>k. p + k) [len ..< Suc n]"
proof (induction mem p len rd rule: scan.induct)
  case (1 mem p len rd)
  from "1.prems" obtain b where b: "mem (p + len) = Some b"
    by (cases "mem (p + len)") (simp_all add: scan.simps [of mem p len])
  show ?case
  proof (cases "b \<noteq> 0 \<and> len < 1024")
    case True
    with "1.prems" b have "scan mem p (Suc len) (rd @ [p + len]) = Inr (n, rd')"
      by (simp add: scan.simps [of mem p len])
    from "1.IH" [OF b True this] show ?thesis
      by (simp add: upt_conv_Cons)
  next
    case False
    with "1.prems" b show ?thesis
      by (auto simp add: scan.simps [of mem p len])
  qed
qed

lemma scan_faults:
  "scan mem p len rd = Inl (Access_violation i) \<Longrightarrow> p + len \<le> i \<and> mem i = None"
proof (induction mem p len rd rule: scan.induct)
  case (1 mem p len rd)
  show ?case
  proof (cases "mem (p + len)")
    case None
    with "1.prems" show ?thesis
      by (simp add: scan.simps [of mem p len])
  next
    case (Some b)
    with "1.prems" have c: "b \<noteq> 0 \<and> len < 1024"
      and r: "scan mem p (Suc len) (rd @ [p + len]) = Inl (Access_violation i)"
      by (simp_all add: scan.simps [of mem p len] split: if_splits)
    from "1.IH" [OF Some c r] show ?thesis by simp
  qed
qed

text \<open>On a text that ends with a zero byte the scan finds its length.\<close>

lemma scan_terminated:
  "len \<le> n \<Longrightarrow> n \<le> 1024 \<Longrightarrow> (\<And>k. k < n \<Longrightarrow> \<exists>b. mem (p + k) = Some b \<and> b \<noteq> 0) \<Longrightarrow>
   mem (p + n) = Some 0 \<Longrightarrow>
   \<exists>rd'. scan mem p len rd = Inr (n, rd')"
proof (induction mem p len rd rule: scan.induct)
  case (1 mem p len rd)
  show ?case
  proof (cases "len = n")
    case True
    with "1.prems" show ?thesis
      by (simp add: scan.simps [of mem p n])
  next
    case False
    with "1.prems" have lt: "len < n" by simp
    with "1.prems"(3) obtain b where b: "mem (p + len) = Some b" and nz: "b \<noteq> 0"
      by blast
    from lt "1.prems" have c: "b \<noteq> 0 \<and> len < 1024"
      using nz by simp
    have "\<exists>rd'. scan mem p (Suc len) (rd @ [p + len]) = Inr (n, rd')"
      using "1.IH" [OF b c] lt "1.prems" by simp
    with b c show ?thesis
      by (simp add: scan.simps [of mem p len])
  qed
qed

lemma copy_bytes_mapped:
  "(\<And>i. i \<in> set js \<Longrightarrow> mem i = Some (f i)) \<Longrightarrow> copy_bytes mem js = Inr (map f js)"
  by (induction js) simp_all

text \<open>A text held by the descriptor is read back, whatever follows the buffer.\<close>

lemma store_field_holds_text:
  assumes h: "holds_text d off s"
  shows "\<exists>rd. store_field (buffer_memory d behind) off text
                = Inr (if off = 0 then text else s, rd)"
proof (cases "off = 0")
  case True
  then show ?thesis by (simp add: store_field_def)
next
  case False
  let ?p = "unat off"
  let ?n = "length s"
  let ?mem = "buffer_memory d behind"
  from h False have b: "?p + ?n < 1024"
    and m: "map (buffer_byte d) [?p ..< ?p + ?n] = s"
    and z: "0 \<notin> set s"
    and t: "buffer_byte d (?p + ?n) = 0"
    by (simp_all add: holds_text_def)
  have inside: "?mem i = Some (buffer_byte d i)" if "i \<le> ?p + ?n" for i
    using that b by (simp add: buffer_memory_def)
  have nonzero: "\<exists>c. ?mem (?p + k) = Some c \<and> c \<noteq> 0" if "k < ?n" for k
  proof -
    from that have "map (buffer_byte d) [?p ..< ?p + ?n] ! k = buffer_byte d (?p + k)"
      by simp
    with m have "s ! k = buffer_byte d (?p + k)" by simp
    moreover from that have "s ! k \<in> set s" by simp
    ultimately have "buffer_byte d (?p + k) \<noteq> 0" using z by metis
    with inside [of "?p + k"] that show ?thesis by simp
  qed
  have "\<exists>rd'. scan ?mem ?p 0 [] = Inr (?n, rd')"
    using b nonzero t inside [of "?p + ?n"] by (intro scan_terminated) simp_all
  then obtain rd' where sc: "scan ?mem ?p 0 [] = Inr (?n, rd')" ..
  have "copy_bytes ?mem [?p ..< ?p + ?n] = Inr (map (buffer_byte d) [?p ..< ?p + ?n])"
    by (rule copy_bytes_mapped) (simp add: inside)
  with m have "copy_bytes ?mem [?p ..< ?p + ?n] = Inr s" by simp
  with sc False show ?thesis
    by (simp add: store_field_def)
qed

section \<open>The bound of the scan\<close>

text \<open>
  C1. Claimed: the scan never reads outside the 1024-byte buffer. The loop bounds
  the length scanned, not the position read, and reads before it tests the bound.
  On \<open>descriptor_unterminated\<close>, whose serial number begins at the last byte of the
  buffer, the scan goes on behind the buffer. When the stack holds \<^verbatim>\<open>A\<close> and then
  zero there, the scan reads the indices 1023, 1024 and 1025 and the serial number
  returned contains the byte found at 1024. When no memory is mapped there, the
  read at index 1024 is an access violation. Whatever is behind the buffer, the
  scan either reads index 1024 or faults at an index not below 1024.
\<close>

theorem scan_overruns_buffer:
  "SerialNumberOffset descriptor_unterminated \<noteq> 0
   \<and> scan (buffer_memory descriptor_unterminated (stack_A 2))
        (unat (SerialNumberOffset descriptor_unterminated)) 0 [] = Inr (2, [1023, 1024, 1025])
   \<and> GetDiskProperties
        (stub None [(0, Some descriptor_unterminated, Some geometry_8GB)]) stack_A idle 0
        initial_members
       = Inr (True, \<lparr>serialNumber = [0x41, 0x41], model = [], sizeQuadPart = 8225280000\<rparr>,
              \<lparr>open_handles = [],
               calls = [Call_CreateFileW (devicePath 0),
                        Call_DeviceIoControl 1 IOCTL_STORAGE_QUERY_PROPERTY,
                        Call_DeviceIoControl 1 IOCTL_DISK_GET_DRIVE_GEOMETRY,
                        Call_CloseHandle 1]\<rparr>)
   \<and> GetDiskProperties
        (stub None [(0, Some descriptor_unterminated, Some geometry_8GB)]) stack_unmapped idle 0
        initial_members
       = Inl (Access_violation 1024)
   \<and> (case scan (buffer_memory descriptor_unterminated behind)
              (unat (SerialNumberOffset descriptor_unterminated)) 0 [] of
         Inl (Access_violation i) \<Rightarrow> 1024 \<le> i
       | Inr (len, rd) \<Rightarrow> 1024 \<in> set rd)"
proof -
  let ?mem = "buffer_memory descriptor_unterminated behind"
  have a: "SerialNumberOffset descriptor_unterminated \<noteq> 0"
    by code_simp
  have b: "scan (buffer_memory descriptor_unterminated (stack_A 2))
        (unat (SerialNumberOffset descriptor_unterminated)) 0 [] = Inr (2, [1023, 1024, 1025])"
    by code_simp
  have c: "GetDiskProperties
        (stub None [(0, Some descriptor_unterminated, Some geometry_8GB)]) stack_A idle 0
        initial_members
       = Inr (True, \<lparr>serialNumber = [0x41, 0x41], model = [], sizeQuadPart = 8225280000\<rparr>,
              \<lparr>open_handles = [],
               calls = [Call_CreateFileW (devicePath 0),
                        Call_DeviceIoControl 1 IOCTL_STORAGE_QUERY_PROPERTY,
                        Call_DeviceIoControl 1 IOCTL_DISK_GET_DRIVE_GEOMETRY,
                        Call_CloseHandle 1]\<rparr>)"
    by code_simp
  have d: "GetDiskProperties
        (stub None [(0, Some descriptor_unterminated, Some geometry_8GB)]) stack_unmapped idle 0
        initial_members
       = Inl (Access_violation 1024)"
    by code_simp
  have off: "unat (SerialNumberOffset descriptor_unterminated) = 1023"
    by (simp add: descriptor_unterminated_def)
  have last: "?mem 1023 = Some 0x41"
    by (simp add: buffer_memory_def buffer_byte_def descriptor_unterminated_def nth_append)
  then have step: "scan ?mem 1023 0 [] = scan ?mem 1023 (Suc 0) [1023]"
    by (simp add: scan.simps [of ?mem 1023 0])
  have e: "(case scan ?mem 1023 0 [] of
         Inl (Access_violation i) \<Rightarrow> 1024 \<le> i
       | Inr (len, rd) \<Rightarrow> 1024 \<in> set rd)"
  proof (cases "scan ?mem 1023 (Suc 0) [1023]")
    case (Inl f)
    obtain i where f: "f = Access_violation i" by (cases f)
    with Inl scan_faults [of ?mem 1023 "Suc 0" "[1023]" i] have "1024 \<le> i" by simp
    with Inl f step show ?thesis by simp
  next
    case (Inr r)
    obtain n rd where r: "r = (n, rd)" by (cases r)
    with Inr scan_returns [of ?mem 1023 "Suc 0" "[1023]" n rd]
    have "Suc 0 \<le> n" and "rd = [1023] @ map (\<lambda>k. 1023 + k) [Suc 0 ..< Suc n]"
      by simp_all
    then have "1024 \<in> set rd"
      by (auto simp add: image_iff intro!: bexI [of _ "Suc 0"])
    with Inr r step show ?thesis by simp
  qed
  from a b c d e off show ?thesis by simp
qed

section \<open>A read that fails at the geometry query\<close>

text \<open>
  C2. Claimed: when the property read of every disk of the volume fails, the
  fetcher ends with empty serial number, empty model and size 0. The volume here
  has the single disk 0, whose descriptor query succeeds and whose geometry query
  fails: the read returns false, and the fetcher keeps the serial number and the
  model that the failed read had already stored; only the size is 0. This is so
  whatever the stack holds.
\<close>

theorem fetch_keeps_strings_of_failed_read:
  "GetDiskProperties
     (stub (Some [extent_on 0]) [(0, Some descriptor_S1_M1, None)]) stack idle 0 initial_members
     = Inr (False, \<lparr>serialNumber = [0x53, 0x31], model = [0x4D, 0x31], sizeQuadPart = 0\<rparr>,
            \<lparr>open_handles = [],
             calls = [Call_CreateFileW (devicePath 0),
                      Call_DeviceIoControl 1 IOCTL_STORAGE_QUERY_PROPERTY,
                      Call_DeviceIoControl 1 IOCTL_DISK_GET_DRIVE_GEOMETRY,
                      Call_CloseHandle 1]\<rparr>)
   \<and> DiskPropertiesFetcher
       (stub (Some [extent_on 0]) [(0, Some descriptor_S1_M1, None)]) stack idle volC
     = Inr (\<lparr>serialNumber = [0x53, 0x31], model = [0x4D, 0x31], sizeQuadPart = 0\<rparr>,
            \<lparr>open_handles = [],
             calls = [Call_CreateFileW volC,
                      Call_DeviceIoControl 1 IOCTL_VOLUME_GET_VOLUME_DISK_EXTENTS,
                      Call_CloseHandle 1,
                      Call_CreateFileW (devicePath 0),
                      Call_DeviceIoControl 1 IOCTL_STORAGE_QUERY_PROPERTY,
                      Call_DeviceIoControl 1 IOCTL_DISK_GET_DRIVE_GEOMETRY,
                      Call_CloseHandle 1]\<rparr>)
   \<and> DiskSerialNumber \<lparr>serialNumber = [0x53, 0x31], model = [0x4D, 0x31], sizeQuadPart = 0\<rparr>
       = [0x53, 0x31]
   \<and> DiskModel \<lparr>serialNumber = [0x53, 0x31], model = [0x4D, 0x31], sizeQuadPart = 0\<rparr>
       = [0x4D, 0x31]
   \<and> DiskSize \<lparr>serialNumber = [0x53, 0x31], model = [0x4D, 0x31], sizeQuadPart = 0\<rparr> = 0"
  by code_simp

section \<open>Two fetches on one machine\<close>

text \<open>
  C9. Claimed: on a fixed machine two fetches return identical results. The
  machine here has the volume on drive 0, whose descriptor is
  \<open>descriptor_unterminated\<close>; the first byte behind the buffer is \<^verbatim>\<open>A\<close> at the time
  of the first fetch and 0x22 at the time of the second. The second fetch starts
  in the state the first one left. The scan runs over the end of the buffer (see
  C1), so the first fetch yields the serial number \<^verbatim>\<open>AA\<close> and the second \<^verbatim>\<open>A"\<close>.
\<close>

theorem fetch_twice_differs:
  "DiskPropertiesFetcher
     (stub (Some [extent_on 0]) [(0, Some descriptor_unterminated, Some geometry_8GB)])
     stack_changing idle volC
     = Inr (\<lparr>serialNumber = [0x41, 0x41], model = [], sizeQuadPart = 8225280000\<rparr>,
            \<lparr>open_handles = [],
             calls = [Call_CreateFileW volC,
                      Call_DeviceIoControl 1 IOCTL_VOLUME_GET_VOLUME_DISK_EXTENTS,
                      Call_CloseHandle 1,
                      Call_CreateFileW (devicePath 0),
                      Call_DeviceIoControl 1 IOCTL_STORAGE_QUERY_PROPERTY,
                      Call_DeviceIoControl 1 IOCTL_DISK_GET_DRIVE_GEOMETRY,
                      Call_CloseHandle 1]\<rparr>)
   \<and> DiskPropertiesFetcher
     (stub (Some [extent_on 0]) [(0, Some descriptor_unterminated, Some geometry_8GB)])
     stack_changing
     \<lparr>open_handles = [],
      calls = [Call_CreateFileW volC,
               Call_DeviceIoControl 1 IOCTL_VOLUME_GET_VOLUME_DISK_EXTENTS,
               Call_CloseHandle 1,
               Call_CreateFileW (devicePath 0),
               Call_DeviceIoControl 1 IOCTL_STORAGE_QUERY_PROPERTY,
               Call_DeviceIoControl 1 IOCTL_DISK_GET_DRIVE_GEOMETRY,
               Call_CloseHandle 1]\<rparr> volC
     = Inr (\<lparr>serialNumber = [0x41, 0x22], model = [], sizeQuadPart = 8225280000\<rparr>,
            \<lparr>open_handles = [],
             calls = [Call_CreateFileW volC,
                      Call_DeviceIoControl 1 IOCTL_VOLUME_GET_VOLUME_DISK_EXTENTS,
                      Call_CloseHandle 1,
                      Call_CreateFileW (devicePath 0),
                      Call_DeviceIoControl 1 IOCTL_STORAGE_QUERY_PROPERTY,
                      Call_DeviceIoControl 1 IOCTL_DISK_GET_DRIVE_GEOMETRY,
                      Call_CloseHandle 1,
                      Call_CreateFileW volC,
                      Call_DeviceIoControl 1 IOCTL_VOLUME_GET_VOLUME_DISK_EXTENTS,
                      Call_CloseHandle 1,
                      Call_CreateFileW (devicePath 0),
                      Call_DeviceIoControl 1 IOCTL_STORAGE_QUERY_PROPERTY,
                      Call_DeviceIoControl 1 IOCTL_DISK_GET_DRIVE_GEOMETRY,
                      Call_CloseHandle 1]\<rparr>)"
  by code_simp

section \<open>The size\<close>

lemma GetDiskProperties_true_size:
  "GetDiskProperties env stack st diskNumber out = Inr (True, out', st') \<Longrightarrow>
   drive_geometry env (devicePath diskNumber) = Some dg \<Longrightarrow>
   sizeQuadPart out' = geometry_size dg"
  by (auto simp add: GetDiskProperties_def CreateFileW_def DeviceIoControl_def Let_def
      split: option.splits sum.splits prod.splits if_splits)

lemma uint_geometry_size:
  "uint (geometry_size dg) =
     (uint (Cylinders dg) * uint (TracksPerCylinder dg) * uint (SectorsPerTrack dg)
        * uint (BytesPerSector dg)) mod 2 ^ 64"
  by (simp add: geometry_size_def uint_word_ariths uint_up_ucast is_up
      mod_mult_left_eq mod_mult_right_eq)

lemma geometry_size_exact:
  assumes c: "0 \<le> sint (Cylinders dg)" and b: "geometry_bytes dg < 2 ^ 63"
  shows "sint (geometry_size dg) = geometry_bytes dg"
proof -
  have "sint (Cylinders dg) < 2 ^ 64"
    using sint_lt [of "Cylinders dg"] by simp
  with c have u: "uint (Cylinders dg) = sint (Cylinders dg)"
    by (simp add: uint_sint take_bit_int_eq_self)
  have nn: "0 \<le> geometry_bytes dg"
    using c by (simp add: geometry_bytes_def)
  from uint_geometry_size [of dg] u
  have "uint (geometry_size dg) = geometry_bytes dg mod 2 ^ 64"
    by (simp add: geometry_bytes_def)
  with nn b have v: "uint (geometry_size dg) = geometry_bytes dg"
    by simp
  have "sint (geometry_size dg) = signed_take_bit 63 (uint (geometry_size dg))"
    by (simp add: sint_uint)
  with v nn b show ?thesis
    by (simp add: signed_take_bit_int_eq_self)
qed

lemma DiskSize_floor:
  assumes "0 \<le> sint (sizeQuadPart this)" and "sint (sizeQuadPart this) < 2 ^ 62"
  shows "uint (DiskSize this) = sint (sizeQuadPart this) div 2 ^ 30"
proof -
  let ?k = "sint (sizeQuadPart this)"
  have q: "?k sdiv (1024 * 1024 * 1024) = ?k div 2 ^ 30"
    using assms(1) by (simp add: signed_divide_int_def sgn_if)
  have lo: "0 \<le> ?k div 2 ^ 30"
    using assms(1) by (simp add: pos_imp_zdiv_nonneg_iff)
  have hi: "?k div 2 ^ 30 < 2 ^ 32"
    using assms(2) by simp
  show ?thesis
    using q lo hi by (simp add: DiskSize_def uint_word_of_int)
qed

text \<open>
  C10. When \<^verbatim>\<open>GetDiskProperties\<close> returns false, for whichever of its three
  reasons, the size out-parameter holds what it held on entry.
\<close>

theorem size_kept_on_failure:
  assumes "GetDiskProperties env stack st diskNumber out = Inr (False, out', st')"
  shows "sizeQuadPart out' = sizeQuadPart out"
  using assms
  by (auto simp add: GetDiskProperties_def CreateFileW_def DeviceIoControl_def Let_def
      split: option.splits sum.splits prod.splits if_splits)

text \<open>
  The witness is a drive whose geometry query fails after its descriptor was read:
  the size stays 5 while serial number and model have been overwritten.
\<close>

theorem size_kept_on_failure_witness:
  "GetDiskProperties (stub None [(0, Some descriptor_S1_M1, None)]) stack_unmapped idle 0
     \<lparr>serialNumber = [0x58], model = [0x59], sizeQuadPart = 5\<rparr>
     = Inr (False, \<lparr>serialNumber = [0x53, 0x31], model = [0x4D, 0x31], sizeQuadPart = 5\<rparr>,
            \<lparr>open_handles = [],
             calls = [Call_CreateFileW (devicePath 0),
                      Call_DeviceIoControl 1 IOCTL_STORAGE_QUERY_PROPERTY,
                      Call_DeviceIoControl 1 IOCTL_DISK_GET_DRIVE_GEOMETRY,
                      Call_CloseHandle 1]\<rparr>)
   \<and> sizeQuadPart \<lparr>serialNumber = [0x53, 0x31], model = [0x4D, 0x31], sizeQuadPart = 5\<rparr>
       = sizeQuadPart \<lparr>serialNumber = [0x58], model = [0x59], sizeQuadPart = 5\<rparr>"
proof -
  have r: "GetDiskProperties (stub None [(0, Some descriptor_S1_M1, None)]) stack_unmapped idle 0
     \<lparr>serialNumber = [0x58], model = [0x59], sizeQuadPart = 5\<rparr>
     = Inr (False, \<lparr>serialNumber = [0x53, 0x31], model = [0x4D, 0x31], sizeQuadPart = 5\<rparr>,
            \<lparr>open_handles = [],
             calls = [Call_CreateFileW (devicePath 0),
                      Call_DeviceIoControl 1 IOCTL_STORAGE_QUERY_PROPERTY,
                      Call_DeviceIoControl 1 IOCTL_DISK_GET_DRIVE_GEOMETRY,
                      Call_CloseHandle 1]\<rparr>)"
    by code_simp
  from size_kept_on_failure [OF r] r show ?thesis
    by (intro conjI)
qed

text \<open>
  C8 as claimed fails: the size is a signed 64-bit number. For one cylinder of
  \<open>2 ^ 32 - 1\<close> tracks with \<open>2 ^ 32 - 1\<close> sectors of one byte the product is
  18446744065119617025, while the size the read stores is -8589934591, and the
  accessor returns 4294967289 where the unsigned size would give 4294967288.
\<close>

theorem size_negative_for_wide_geometry:
  "GetDiskProperties (stub None [(0, Some descriptor_S1_M1, Some geometry_wide)]) stack_unmapped idle 0
     initial_members
     = Inr (True,
            \<lparr>serialNumber = [0x53, 0x31], model = [0x4D, 0x31],
             sizeQuadPart = 0xFFFFFFFE00000001\<rparr>,
            \<lparr>open_handles = [],
             calls = [Call_CreateFileW (devicePath 0),
                      Call_DeviceIoControl 1 IOCTL_STORAGE_QUERY_PROPERTY,
                      Call_DeviceIoControl 1 IOCTL_DISK_GET_DRIVE_GEOMETRY,
                      Call_CloseHandle 1]\<rparr>)
   \<and> uint (Cylinders geometry_wide) * uint (TracksPerCylinder geometry_wide)
       * uint (SectorsPerTrack geometry_wide) * uint (BytesPerSector geometry_wide)
       = 18446744065119617025
   \<and> sint (0xFFFFFFFE00000001 :: LONGLONG) = - 8589934591
   \<and> uint (DiskSize \<lparr>serialNumber = [0x53, 0x31], model = [0x4D, 0x31],
                      sizeQuadPart = 0xFFFFFFFE00000001\<rparr>) = 4294967289
   \<and> (18446744065119617025 :: int) div 2 ^ 30 mod 2 ^ 32 = 4294967288"
  by code_simp

text \<open>
  C8, amended. After a successful read the size is the product of the four
  geometry fields in signed 64-bit arithmetic: when the cylinder count is not
  negative and the product is below \<open>2 ^ 63\<close> the size is the product; in every
  case the 64 bits of the size are those of the product of the four fields read
  as unsigned numbers, modulo \<open>2 ^ 64\<close>. For the geometry (1000, 255, 63, 512) the
  size is 8225280000 and the accessor returns 7.
\<close>

theorem size_is_product:
  assumes "GetDiskProperties env stack st diskNumber out = Inr (True, out', st')"
    and "drive_geometry env (devicePath diskNumber) = Some dg"
  shows "(0 \<le> sint (Cylinders dg) \<and> geometry_bytes dg < 2 ^ 63 \<longrightarrow>
            sint (sizeQuadPart out') = geometry_bytes dg)
       \<and> uint (sizeQuadPart out') =
           (uint (Cylinders dg) * uint (TracksPerCylinder dg) * uint (SectorsPerTrack dg)
              * uint (BytesPerSector dg)) mod 2 ^ 64
       \<and> geometry_bytes geometry_8GB = 1000 * 255 * 63 * 512
       \<and> sint (geometry_size geometry_8GB) = 8225280000
       \<and> DiskSize \<lparr>serialNumber = s, model = m, sizeQuadPart = geometry_size geometry_8GB\<rparr> = 7
       \<and> (8225280000 :: int) div 2 ^ 30 = 7"
proof -
  have z: "sizeQuadPart out' = geometry_size dg"
    using assms by (rule GetDiskProperties_true_size)
  have c1: "0 \<le> sint (Cylinders dg) \<and> geometry_bytes dg < 2 ^ 63 \<longrightarrow>
            sint (sizeQuadPart out') = geometry_bytes dg"
    unfolding z using geometry_size_exact [of dg] by blast
  have c2: "uint (sizeQuadPart out') =
           (uint (Cylinders dg) * uint (TracksPerCylinder dg) * uint (SectorsPerTrack dg)
              * uint (BytesPerSector dg)) mod 2 ^ 64"
    unfolding z by (rule uint_geometry_size)
  have c3: "geometry_bytes geometry_8GB = 1000 * 255 * 63 * 512"
    by (simp add: geometry_bytes_def geometry_8GB_def)
  have g: "geometry_size geometry_8GB = 8225280000"
    by (simp add: geometry_size_def geometry_8GB_def)
  have c4: "sint (geometry_size geometry_8GB) = 8225280000"
    unfolding g by simp
  have c5: "DiskSize \<lparr>serialNumber = s, model = m,
                       sizeQuadPart = geometry_size geometry_8GB\<rparr> = 7"
    unfolding g by (simp add: DiskSize_def signed_divide_int_def)
  have c6: "(8225280000 :: int) div 2 ^ 30 = 7"
    by simp
  from c1 c2 c3 c4 c5 c6 show ?thesis
    by (intro conjI)
qed

theorem size_is_product_witness:
  "GetDiskProperties (stub None [(0, Some descriptor_S1_M1, Some geometry_8GB)]) stack_unmapped
     idle 0 initial_members
     = Inr (True,
            \<lparr>serialNumber = [0x53, 0x31], model = [0x4D, 0x31], sizeQuadPart = 8225280000\<rparr>,
            \<lparr>open_handles = [],
             calls = [Call_CreateFileW (devicePath 0),
                      Call_DeviceIoControl 1 IOCTL_STORAGE_QUERY_PROPERTY,
                      Call_DeviceIoControl 1 IOCTL_DISK_GET_DRIVE_GEOMETRY,
                      Call_CloseHandle 1]\<rparr>)
   \<and> drive_geometry (stub None [(0, Some descriptor_S1_M1, Some geometry_8GB)]) (devicePath 0)
       = Some geometry_8GB
   \<and> 0 \<le> sint (Cylinders geometry_8GB)
   \<and> geometry_bytes geometry_8GB = 8225280000
   \<and> sint (sizeQuadPart
        \<lparr>serialNumber = [0x53, 0x31], model = [0x4D, 0x31], sizeQuadPart = 8225280000\<rparr>)
       = 8225280000
   \<and> DiskSize \<lparr>serialNumber = [0x53, 0x31], model = [0x4D, 0x31], sizeQuadPart = 8225280000\<rparr>
       = 7"
proof -
  let ?env = "stub None [(0, Some descriptor_S1_M1, Some geometry_8GB)]"
  have r: "GetDiskProperties ?env stack_unmapped idle 0 initial_members
     = Inr (True,
            \<lparr>serialNumber = [0x53, 0x31], model = [0x4D, 0x31], sizeQuadPart = 8225280000\<rparr>,
            \<lparr>open_handles = [],
             calls = [Call_CreateFileW (devicePath 0),
                      Call_DeviceIoControl 1 IOCTL_STORAGE_QUERY_PROPERTY,
                      Call_DeviceIoControl 1 IOCTL_DISK_GET_DRIVE_GEOMETRY,
                      Call_CloseHandle 1]\<rparr>)"
    by code_simp
  have g: "drive_geometry ?env (devicePath 0) = Some geometry_8GB"
    by (simp add: stub_def find_disk_def)
  have c: "0 \<le> sint (Cylinders geometry_8GB)"
    by (simp add: geometry_8GB_def)
  have b: "geometry_bytes geometry_8GB = 8225280000"
    by (simp add: geometry_bytes_def geometry_8GB_def)
  have lt: "geometry_bytes geometry_8GB < 2 ^ 63"
    unfolding b by simp
  note t = size_is_product [OF r g, of "[0x53, 0x31]" "[0x4D, 0x31]"]
  from t c lt have "sint (sizeQuadPart
        \<lparr>serialNumber = [0x53, 0x31], model = [0x4D, 0x31], sizeQuadPart = 8225280000\<rparr>)
       = geometry_bytes geometry_8GB"
    by blast
  then have s: "sint (sizeQuadPart
        \<lparr>serialNumber = [0x53, 0x31], model = [0x4D, 0x31], sizeQuadPart = 8225280000\<rparr>)
       = 8225280000"
    by (simp only: b)
  have d: "DiskSize \<lparr>serialNumber = [0x53, 0x31], model = [0x4D, 0x31],
                     sizeQuadPart = 8225280000\<rparr> = 7"
    by code_simp
  from r g c b s d show ?thesis
    by (intro conjI)
qed

section \<open>A read that returns\<close>

lemma try_disks_single:
  "try_disks env stack st [n] this =
     (case GetDiskProperties env stack st n this of
        Inl f \<Rightarrow> Inl f
      | Inr (ok, this1, st1) \<Rightarrow> Inr (this1, st1))"
  by (simp split: sum.splits)

text \<open>
  A fetch on a volume with a single extent is one property read into the initial
  members.
\<close>

lemma DiskPropertiesFetcher_single:
  assumes "exists_path env volumePath"
    and "volume_disk_extents env volumePath = Some [e]"
  shows "\<exists>st1. length (calls st1) = length (calls st) + 3 \<and>
           DiskPropertiesFetcher env stack st volumePath =
             (case GetDiskProperties env stack st1 (DiskNumber e) initial_members of
                Inl f \<Rightarrow> Inl f
              | Inr (ok, this1, st2) \<Rightarrow> Inr (this1, st2))"
proof -
  obtain ok ds st1 where r: "GetVolumeDiskExtents env st volumePath [] = (ok, ds, st1)"
    by (cases "GetVolumeDiskExtents env st volumePath []") auto
  have room: "length [e] \<le> VOLUME_DISK_EXTENTS_room"
    by (simp add: VOLUME_DISK_EXTENTS_room_def)
  from GetVolumeDiskExtents_fits [OF assms room, of st "[]"] r
  have "ok" and "ds = [DiskNumber e]" by simp_all
  with r have f: "DiskPropertiesFetcher env stack st volumePath =
           try_disks env stack st1 [DiskNumber e] initial_members"
    by (simp add: DiskPropertiesFetcher_def)
  from GetVolumeDiskExtents_calls [of env st volumePath "[]"] r assms(1)
  have "length (calls st1) = length (calls st) + 3"
    by simp
  with f show ?thesis
    by (auto simp only: try_disks_single)
qed

lemma GetDiskProperties_returned:
  assumes "storage_property env (devicePath n) = Some d"
    and "GetDiskProperties env stack st n out = Inr (ok, out', st')"
    and "exists_path env (devicePath n)"
  shows "\<exists>rd. store_field (buffer_memory d (stack (length (calls st) + 2)))
            (SerialNumberOffset d) (serialNumber out) = Inr (serialNumber out', rd)"
    and "\<exists>rd. store_field (buffer_memory d (stack (length (calls st) + 2)))
            (ProductIdOffset d) (model out) = Inr (model out', rd)"
  using assms
  by (auto simp add: GetDiskProperties_def CreateFileW_def DeviceIoControl_def Let_def
      split: option.splits sum.splits prod.splits if_splits)

lemma GetDiskProperties_returns:
  assumes "exists_path env (devicePath n)"
    and "storage_property env (devicePath n) = Some d"
    and "drive_geometry env (devicePath n) = Some dg"
    and "store_field (buffer_memory d (stack (length (calls st) + 2)))
            (SerialNumberOffset d) (serialNumber out) = Inr (serial, rd1)"
    and "store_field (buffer_memory d (stack (length (calls st) + 2)))
            (ProductIdOffset d) (model out) = Inr (product, rd2)"
  shows "\<exists>out' st'. GetDiskProperties env stack st n out = Inr (True, out', st')"
  using assms
  by (simp add: GetDiskProperties_def CreateFileW_def DeviceIoControl_def Let_def)

lemma GetDiskProperties_answered:
  assumes "exists_path env (devicePath n)"
    and "storage_property env (devicePath n) = Some d"
    and "drive_geometry env (devicePath n) = Some dg"
    and "GetDiskProperties env stack st n out = Inr (ok, out', st')"
  shows "ok" and "sizeQuadPart out' = geometry_size dg"
  using assms
  by (auto simp add: GetDiskProperties_def CreateFileW_def DeviceIoControl_def Let_def
      split: option.splits sum.splits prod.splits if_splits)

lemma GetDiskProperties_absent_serial:
  assumes "storage_property env (devicePath n) = Some d"
    and "SerialNumberOffset d = 0"
    and "GetDiskProperties env stack st n out = Inr (ok, out', st')"
  shows "serialNumber out' = serialNumber out"
  using assms
  by (auto simp add: GetDiskProperties_def CreateFileW_def DeviceIoControl_def Let_def
      store_field_def split: option.splits sum.splits prod.splits if_splits)

section \<open>An absent serial number\<close>

text \<open>
  C3 as claimed fails: with serial-number offset 0 the read returns true and the
  serial-number string still holds the \<^verbatim>\<open>X\<close> it held on entry.
\<close>

theorem absent_serial_not_empty:
  "SerialNumberOffset descriptor_M2 = 0
   \<and> GetDiskProperties
       (stub (Some [extent_on 2]) [(2, Some descriptor_M2, Some geometry_8GB)]) stack_unmapped idle 2
       \<lparr>serialNumber = [0x58], model = [], sizeQuadPart = 0\<rparr>
     = Inr (True, \<lparr>serialNumber = [0x58], model = [0x4D, 0x32], sizeQuadPart = 8225280000\<rparr>,
            \<lparr>open_handles = [],
             calls = [Call_CreateFileW (devicePath 2),
                      Call_DeviceIoControl 1 IOCTL_STORAGE_QUERY_PROPERTY,
                      Call_DeviceIoControl 1 IOCTL_DISK_GET_DRIVE_GEOMETRY,
                      Call_CloseHandle 1]\<rparr>)"
  by code_simp

text \<open>
  C3, amended. For a descriptor whose serial-number offset is 0, the block that
  stores the serial number reads no byte of memory and leaves the string as it
  is; so the property read of a disk with this descriptor, whenever it returns,
  leaves the serial-number string exactly as the caller passed it, and a fetch
  that returns, on a volume whose only extent lies on such a disk, ends with the
  empty serial number.
\<close>

theorem absent_serial_untouched:
  assumes z: "SerialNumberOffset d = 0"
  shows "store_field mem (SerialNumberOffset d) str = Inr (str, [])
       \<and> (\<forall>ok out' st'.
            storage_property env (devicePath diskNumber) = Some d
            \<and> GetDiskProperties env stack st diskNumber out = Inr (ok, out', st') \<longrightarrow>
            serialNumber out' = serialNumber out)
       \<and> (\<forall>e this st'.
            storage_property env (devicePath (DiskNumber e)) = Some d
            \<and> volume_disk_extents env volumePath = Some [e]
            \<and> DiskPropertiesFetcher env stack st volumePath = Inr (this, st') \<longrightarrow>
            DiskSerialNumber this = [])"
proof -
  have block: "store_field mem (SerialNumberOffset d) str = Inr (str, [])"
    using z by (simp add: store_field_def)
  have untouched: "serialNumber out' = serialNumber out0"
    if "storage_property env (devicePath n) = Some d"
      and "GetDiskProperties env stack s n out0 = Inr (ok, out', st')"
    for n s out0 ok out' st'
    using that(1) z that(2) by (rule GetDiskProperties_absent_serial)
  have fetch: "DiskSerialNumber this = []"
    if sp: "storage_property env (devicePath (DiskNumber e)) = Some d"
      and v: "volume_disk_extents env volumePath = Some [e]"
      and f: "DiskPropertiesFetcher env stack st volumePath = Inr (this, st')"
    for e this st'
  proof (cases "exists_path env volumePath")
    case True
    from DiskPropertiesFetcher_single [OF True v, of st stack] f obtain st1 where
      "(case GetDiskProperties env stack st1 (DiskNumber e) initial_members of
          Inl f \<Rightarrow> Inl f
        | Inr (ok, this1, st2) \<Rightarrow> Inr (this1, st2)) = Inr (this, st')"
      by auto
    then obtain ok where
      "GetDiskProperties env stack st1 (DiskNumber e) initial_members = Inr (ok, this, st')"
      by (auto split: sum.splits)
    from untouched [OF sp this] show ?thesis
      by (simp add: DiskSerialNumber_def initial_members_def)
  next
    case False
    with f show ?thesis
      by (auto simp add: DiskPropertiesFetcher_def GetVolumeDiskExtents_def CreateFileW_def
          DiskSerialNumber_def initial_members_def)
  qed
  from block untouched fetch show ?thesis
    by blast
qed

theorem absent_serial_untouched_witness:
  "SerialNumberOffset descriptor_M2 = 0
   \<and> storage_property (stub (Some [extent_on 2]) [(2, Some descriptor_M2, Some geometry_8GB)])
       (devicePath 2) = Some descriptor_M2
   \<and> storage_property (stub (Some [extent_on 2]) [(2, Some descriptor_M2, Some geometry_8GB)])
       (devicePath (DiskNumber (extent_on 2))) = Some descriptor_M2
   \<and> store_field (buffer_memory descriptor_M2 (stack_unmapped 2))
       (SerialNumberOffset descriptor_M2) [0x58] = Inr ([0x58], [])
   \<and> GetDiskProperties
       (stub (Some [extent_on 2]) [(2, Some descriptor_M2, Some geometry_8GB)]) stack_unmapped
       idle 2 \<lparr>serialNumber = [0x58], model = [], sizeQuadPart = 0\<rparr>
     = Inr (True, \<lparr>serialNumber = [0x58], model = [0x4D, 0x32], sizeQuadPart = 8225280000\<rparr>,
            \<lparr>open_handles = [],
             calls = [Call_CreateFileW (devicePath 2),
                      Call_DeviceIoControl 1 IOCTL_STORAGE_QUERY_PROPERTY,
                      Call_DeviceIoControl 1 IOCTL_DISK_GET_DRIVE_GEOMETRY,
                      Call_CloseHandle 1]\<rparr>)
   \<and> serialNumber \<lparr>serialNumber = [0x58], model = [0x4D, 0x32], sizeQuadPart = 8225280000\<rparr>
       = serialNumber \<lparr>serialNumber = [0x58], model = [], sizeQuadPart = 0\<rparr>
   \<and> volume_disk_extents (stub (Some [extent_on 2]) [(2, Some descriptor_M2, Some geometry_8GB)])
       volC = Some [extent_on 2]
   \<and> DiskPropertiesFetcher
       (stub (Some [extent_on 2]) [(2, Some descriptor_M2, Some geometry_8GB)]) stack_unmapped
       idle volC
     = Inr (\<lparr>serialNumber = [], model = [0x4D, 0x32], sizeQuadPart = 8225280000\<rparr>,
            \<lparr>open_handles = [],
             calls = [Call_CreateFileW volC,
                      Call_DeviceIoControl 1 IOCTL_VOLUME_GET_VOLUME_DISK_EXTENTS,
                      Call_CloseHandle 1,
                      Call_CreateFileW (devicePath 2),
                      Call_DeviceIoControl 1 IOCTL_STORAGE_QUERY_PROPERTY,
                      Call_DeviceIoControl 1 IOCTL_DISK_GET_DRIVE_GEOMETRY,
                      Call_CloseHandle 1]\<rparr>)
   \<and> DiskSerialNumber \<lparr>serialNumber = [], model = [0x4D, 0x32], sizeQuadPart = 8225280000\<rparr>
       = []"
proof -
  let ?env = "stub (Some [extent_on 2]) [(2, Some descriptor_M2, Some geometry_8GB)]"
  let ?out = "\<lparr>serialNumber = [0x58], model = [], sizeQuadPart = 0\<rparr>"
  let ?out' = "\<lparr>serialNumber = [0x58], model = [0x4D, 0x32], sizeQuadPart = 8225280000\<rparr>"
  let ?fin = "\<lparr>serialNumber = [], model = [0x4D, 0x32], sizeQuadPart = 8225280000\<rparr>"
  have sp: "storage_property ?env (devicePath 2) = Some descriptor_M2"
    by (simp add: stub_def find_disk_def)
  have z: "SerialNumberOffset descriptor_M2 = 0"
    by (simp add: descriptor_M2_def)
  have r: "GetDiskProperties ?env stack_unmapped idle 2 ?out
     = Inr (True, ?out',
            \<lparr>open_handles = [],
             calls = [Call_CreateFileW (devicePath 2),
                      Call_DeviceIoControl 1 IOCTL_STORAGE_QUERY_PROPERTY,
                      Call_DeviceIoControl 1 IOCTL_DISK_GET_DRIVE_GEOMETRY,
                      Call_CloseHandle 1]\<rparr>)"
    by code_simp
  have v: "volume_disk_extents ?env volC = Some [extent_on 2]"
    by (simp add: stub_def)
  have sp': "storage_property ?env (devicePath (DiskNumber (extent_on 2))) = Some descriptor_M2"
    by (simp add: stub_def find_disk_def extent_on_def)
  have f: "DiskPropertiesFetcher ?env stack_unmapped idle volC
     = Inr (?fin,
            \<lparr>open_handles = [],
             calls = [Call_CreateFileW volC,
                      Call_DeviceIoControl 1 IOCTL_VOLUME_GET_VOLUME_DISK_EXTENTS,
                      Call_CloseHandle 1,
                      Call_CreateFileW (devicePath 2),
                      Call_DeviceIoControl 1 IOCTL_STORAGE_QUERY_PROPERTY,
                      Call_DeviceIoControl 1 IOCTL_DISK_GET_DRIVE_GEOMETRY,
                      Call_CloseHandle 1]\<rparr>)"
    by code_simp
  note t = absent_serial_untouched [OF z,
      where mem = "buffer_memory descriptor_M2 (stack_unmapped 2)" and str = "[0x58]"
        and env = ?env and diskNumber = 2
        and stack = stack_unmapped and st = idle and out = ?out and volumePath = volC]
  from t have c1: "store_field (buffer_memory descriptor_M2 (stack_unmapped 2))
       (SerialNumberOffset descriptor_M2) [0x58] = Inr ([0x58], [])"
    by blast
  from t sp r have c2: "serialNumber ?out' = serialNumber ?out"
    by blast
  from t sp' v f have c3: "DiskSerialNumber ?fin = []"
    by blast
  from z sp sp' c1 r c2 v f c3 show ?thesis
    by (intro conjI)
qed

section \<open>A volume on a single disk\<close>

text \<open>
  C4 as claimed fails: for a geometry of \<open>2 ^ 62\<close> bytes the quotient by \<open>2 ^ 30\<close>
  is \<open>2 ^ 32\<close>, which the 32-bit result of the accessor cannot hold; the accessor
  returns 0.
\<close>

theorem DiskSize_truncates:
  "DiskPropertiesFetcher
     (stub (Some [extent_on 0]) [(0, Some descriptor_S1_M1, Some geometry_4EiB)]) stack_unmapped idle volC
     = Inr (\<lparr>serialNumber = [0x53, 0x31], model = [0x4D, 0x31],
             sizeQuadPart = 4611686018427387904\<rparr>,
            \<lparr>open_handles = [],
             calls = [Call_CreateFileW volC,
                      Call_DeviceIoControl 1 IOCTL_VOLUME_GET_VOLUME_DISK_EXTENTS,
                      Call_CloseHandle 1,
                      Call_CreateFileW (devicePath 0),
                      Call_DeviceIoControl 1 IOCTL_STORAGE_QUERY_PROPERTY,
                      Call_DeviceIoControl 1 IOCTL_DISK_GET_DRIVE_GEOMETRY,
                      Call_CloseHandle 1]\<rparr>)
   \<and> geometry_bytes geometry_4EiB = 4611686018427387904
   \<and> geometry_bytes geometry_4EiB div 2 ^ 30 = 4294967296
   \<and> uint (DiskSize \<lparr>serialNumber = [0x53, 0x31], model = [0x4D, 0x31],
                      sizeQuadPart = 4611686018427387904\<rparr>) = 0"
  by code_simp

text \<open>
  C4, amended. Let the volume open and resolve to one extent, and let the open, the
  property query and the geometry query of its disk succeed. When the descriptor
  holds both the serial number and the model as texts that end inside the buffer
  (or as absent fields, for the empty text), the fetch returns. Whenever the fetch
  returns, it yields the serial number if the descriptor holds it so, and the
  model if the descriptor holds it so; and if the cylinder count is not negative
  and the capacity is below \<open>2 ^ 62\<close> bytes, the size is the capacity and the
  accessor returns the capacity divided by \<open>2 ^ 30\<close>, rounded down.
\<close>

theorem fetch_single_disk:
  assumes vol: "exists_path env volumePath"
    and exts: "volume_disk_extents env volumePath = Some [e]"
    and dev: "exists_path env (devicePath (DiskNumber e))"
    and sp: "storage_property env (devicePath (DiskNumber e)) = Some d"
    and geo: "drive_geometry env (devicePath (DiskNumber e)) = Some dg"
  shows "(holds_text d (SerialNumberOffset d) serial \<and> holds_text d (ProductIdOffset d) product
            \<longrightarrow> (\<exists>this st'. DiskPropertiesFetcher env stack st volumePath = Inr (this, st')))
       \<and> (\<forall>this st'. DiskPropertiesFetcher env stack st volumePath = Inr (this, st') \<longrightarrow>
            (holds_text d (SerialNumberOffset d) serial \<longrightarrow> DiskSerialNumber this = serial)
          \<and> (holds_text d (ProductIdOffset d) product \<longrightarrow> DiskModel this = product)
          \<and> (0 \<le> sint (Cylinders dg) \<and> geometry_bytes dg < 2 ^ 62 \<longrightarrow>
                sint (sizeQuadPart this) = geometry_bytes dg
              \<and> uint (DiskSize this) = geometry_bytes dg div 2 ^ 30))"
proof -
  from DiskPropertiesFetcher_single [OF vol exts, of st stack] obtain st1 where
    f: "DiskPropertiesFetcher env stack st volumePath =
          (case GetDiskProperties env stack st1 (DiskNumber e) initial_members of
             Inl f \<Rightarrow> Inl f
           | Inr (ok, this1, st2) \<Rightarrow> Inr (this1, st2))"
    by blast
  let ?mem = "buffer_memory d (stack (length (calls st1) + 2))"
  have returns: "\<exists>this st'. DiskPropertiesFetcher env stack st volumePath = Inr (this, st')"
    if hs: "holds_text d (SerialNumberOffset d) serial"
      and hp: "holds_text d (ProductIdOffset d) product"
  proof -
    from store_field_holds_text [OF hs, of "stack (length (calls st1) + 2)"
        "serialNumber initial_members"]
    obtain s1 rd1 where a: "store_field ?mem (SerialNumberOffset d)
        (serialNumber initial_members) = Inr (s1, rd1)"
      by blast
    from store_field_holds_text [OF hp, of "stack (length (calls st1) + 2)"
        "model initial_members"]
    obtain s2 rd2 where b: "store_field ?mem (ProductIdOffset d)
        (model initial_members) = Inr (s2, rd2)"
      by blast
    from GetDiskProperties_returns [where stack = stack and st = st1
        and out = initial_members, OF dev sp geo a b] obtain out' st' where
      "GetDiskProperties env stack st1 (DiskNumber e) initial_members = Inr (True, out', st')"
      by blast
    with f have "DiskPropertiesFetcher env stack st volumePath = Inr (out', st')"
      by simp
    then show ?thesis by blast
  qed
  have results:
    "(holds_text d (SerialNumberOffset d) serial \<longrightarrow> DiskSerialNumber this = serial)
     \<and> (holds_text d (ProductIdOffset d) product \<longrightarrow> DiskModel this = product)
     \<and> (0 \<le> sint (Cylinders dg) \<and> geometry_bytes dg < 2 ^ 62 \<longrightarrow>
           sint (sizeQuadPart this) = geometry_bytes dg
         \<and> uint (DiskSize this) = geometry_bytes dg div 2 ^ 30)"
    if r: "DiskPropertiesFetcher env stack st volumePath = Inr (this, st')" for this st'
  proof -
    from r f obtain ok where
      g: "GetDiskProperties env stack st1 (DiskNumber e) initial_members = Inr (ok, this, st')"
      by (auto split: sum.splits)
    have s: "DiskSerialNumber this = serial" if hs: "holds_text d (SerialNumberOffset d) serial"
    proof -
      from GetDiskProperties_returned(1) [OF sp g dev] obtain rd where
        a: "store_field ?mem (SerialNumberOffset d) (serialNumber initial_members)
              = Inr (serialNumber this, rd)"
        by blast
      from store_field_holds_text [OF hs, of "stack (length (calls st1) + 2)"
          "serialNumber initial_members"] a
      have "serialNumber this =
          (if SerialNumberOffset d = 0 then serialNumber initial_members else serial)"
        by auto
      moreover from hs have "SerialNumberOffset d = 0 \<Longrightarrow> serial = []"
        by (simp add: holds_text_def)
      ultimately show ?thesis
        by (auto simp add: DiskSerialNumber_def initial_members_def)
    qed
    have m: "DiskModel this = product" if hp: "holds_text d (ProductIdOffset d) product"
    proof -
      from GetDiskProperties_returned(2) [OF sp g dev] obtain rd where
        a: "store_field ?mem (ProductIdOffset d) (model initial_members)
              = Inr (model this, rd)"
        by blast
      from store_field_holds_text [OF hp, of "stack (length (calls st1) + 2)"
          "model initial_members"] a
      have "model this = (if ProductIdOffset d = 0 then model initial_members else product)"
        by auto
      moreover from hp have "ProductIdOffset d = 0 \<Longrightarrow> product = []"
        by (simp add: holds_text_def)
      ultimately show ?thesis
        by (auto simp add: DiskModel_def initial_members_def)
    qed
    have z: "sint (sizeQuadPart this) = geometry_bytes dg
           \<and> uint (DiskSize this) = geometry_bytes dg div 2 ^ 30"
      if cyl: "0 \<le> sint (Cylinders dg)" and cap: "geometry_bytes dg < 2 ^ 62"
    proof -
      from GetDiskProperties_answered(2) [OF dev sp geo g]
      have q: "sizeQuadPart this = geometry_size dg" .
      from cap have "geometry_bytes dg < 2 ^ 63" by simp
      with cyl have x: "sint (geometry_size dg) = geometry_bytes dg"
        by (rule geometry_size_exact)
      have nn: "0 \<le> geometry_bytes dg"
        using cyl by (simp add: geometry_bytes_def)
      from q x nn cap have "uint (DiskSize this) = geometry_bytes dg div 2 ^ 30"
        using DiskSize_floor [of this] by simp
      with q x show ?thesis by simp
    qed
    from s m z show ?thesis by blast
  qed
  from returns results show ?thesis by blast
qed

text \<open>
  The witness is the drive with \<^verbatim>\<open>S1\<close>, \<^verbatim>\<open>M1\<close> and 8225280000 bytes. The theorem
  also speaks on the machine of \<open>2 ^ 62\<close> bytes, where it gives the serial number,
  and on the drive with the unterminated serial number, where it gives the size.
\<close>

theorem fetch_single_disk_witness:
  "exists_path (stub (Some [extent_on 0]) [(0, Some descriptor_S1_M1, Some geometry_8GB)]) volC
   \<and> volume_disk_extents
       (stub (Some [extent_on 0]) [(0, Some descriptor_S1_M1, Some geometry_8GB)]) volC
       = Some [extent_on 0]
   \<and> exists_path (stub (Some [extent_on 0]) [(0, Some descriptor_S1_M1, Some geometry_8GB)])
       (devicePath (DiskNumber (extent_on 0)))
   \<and> storage_property
       (stub (Some [extent_on 0]) [(0, Some descriptor_S1_M1, Some geometry_8GB)])
       (devicePath (DiskNumber (extent_on 0))) = Some descriptor_S1_M1
   \<and> drive_geometry
       (stub (Some [extent_on 0]) [(0, Some descriptor_S1_M1, Some geometry_8GB)])
       (devicePath (DiskNumber (extent_on 0))) = Some geometry_8GB
   \<and> holds_text descriptor_S1_M1 (SerialNumberOffset descriptor_S1_M1) [0x53, 0x31]
   \<and> holds_text descriptor_S1_M1 (ProductIdOffset descriptor_S1_M1) [0x4D, 0x31]
   \<and> 0 \<le> sint (Cylinders geometry_8GB)
   \<and> geometry_bytes geometry_8GB = 8225280000
   \<and> DiskPropertiesFetcher
       (stub (Some [extent_on 0]) [(0, Some descriptor_S1_M1, Some geometry_8GB)])
       stack_unmapped idle volC
     = Inr (\<lparr>serialNumber = [0x53, 0x31], model = [0x4D, 0x31], sizeQuadPart = 8225280000\<rparr>,
            \<lparr>open_handles = [],
             calls = [Call_CreateFileW volC,
                      Call_DeviceIoControl 1 IOCTL_VOLUME_GET_VOLUME_DISK_EXTENTS,
                      Call_CloseHandle 1,
                      Call_CreateFileW (devicePath 0),
                      Call_DeviceIoControl 1 IOCTL_STORAGE_QUERY_PROPERTY,
                      Call_DeviceIoControl 1 IOCTL_DISK_GET_DRIVE_GEOMETRY,
                      Call_CloseHandle 1]\<rparr>)
   \<and> DiskSerialNumber
       \<lparr>serialNumber = [0x53, 0x31], model = [0x4D, 0x31], sizeQuadPart = 8225280000\<rparr>
       = [0x53, 0x31]
   \<and> DiskModel
       \<lparr>serialNumber = [0x53, 0x31], model = [0x4D, 0x31], sizeQuadPart = 8225280000\<rparr>
       = [0x4D, 0x31]
   \<and> uint (DiskSize
       \<lparr>serialNumber = [0x53, 0x31], model = [0x4D, 0x31], sizeQuadPart = 8225280000\<rparr>)
       = 8225280000 div 2 ^ 30
   \<and> DiskPropertiesFetcher
       (stub (Some [extent_on 0]) [(0, Some descriptor_S1_M1, Some geometry_4EiB)])
       stack_unmapped idle volC
     = Inr (\<lparr>serialNumber = [0x53, 0x31], model = [0x4D, 0x31],
             sizeQuadPart = 4611686018427387904\<rparr>,
            \<lparr>open_handles = [],
             calls = [Call_CreateFileW volC,
                      Call_DeviceIoControl 1 IOCTL_VOLUME_GET_VOLUME_DISK_EXTENTS,
                      Call_CloseHandle 1,
                      Call_CreateFileW (devicePath 0),
                      Call_DeviceIoControl 1 IOCTL_STORAGE_QUERY_PROPERTY,
                      Call_DeviceIoControl 1 IOCTL_DISK_GET_DRIVE_GEOMETRY,
                      Call_CloseHandle 1]\<rparr>)
   \<and> DiskSerialNumber
       \<lparr>serialNumber = [0x53, 0x31], model = [0x4D, 0x31],
        sizeQuadPart = 4611686018427387904\<rparr> = [0x53, 0x31]
   \<and> DiskPropertiesFetcher
       (stub (Some [extent_on 0]) [(0, Some descriptor_unterminated, Some geometry_8GB)])
       stack_A idle volC
     = Inr (\<lparr>serialNumber = [0x41, 0x41], model = [], sizeQuadPart = 8225280000\<rparr>,
            \<lparr>open_handles = [],
             calls = [Call_CreateFileW volC,
                      Call_DeviceIoControl 1 IOCTL_VOLUME_GET_VOLUME_DISK_EXTENTS,
                      Call_CloseHandle 1,
                      Call_CreateFileW (devicePath 0),
                      Call_DeviceIoControl 1 IOCTL_STORAGE_QUERY_PROPERTY,
                      Call_DeviceIoControl 1 IOCTL_DISK_GET_DRIVE_GEOMETRY,
                      Call_CloseHandle 1]\<rparr>)
   \<and> uint (DiskSize \<lparr>serialNumber = [0x41, 0x41], model = [], sizeQuadPart = 8225280000\<rparr>)
       = 8225280000 div 2 ^ 30"
proof -
  let ?env = "stub (Some [extent_on 0]) [(0, Some descriptor_S1_M1, Some geometry_8GB)]"
  let ?fin = "\<lparr>serialNumber = [0x53, 0x31], model = [0x4D, 0x31],
               sizeQuadPart = 8225280000\<rparr>"
  have vol: "exists_path ?env volC"
    by (simp add: stub_def)
  have exts: "volume_disk_extents ?env volC = Some [extent_on 0]"
    by (simp add: stub_def)
  have dev: "exists_path ?env (devicePath (DiskNumber (extent_on 0)))"
    by (simp add: stub_def find_disk_def extent_on_def)
  have sp: "storage_property ?env (devicePath (DiskNumber (extent_on 0))) = Some descriptor_S1_M1"
    by (simp add: stub_def find_disk_def extent_on_def)
  have geo: "drive_geometry ?env (devicePath (DiskNumber (extent_on 0))) = Some geometry_8GB"
    by (simp add: stub_def find_disk_def extent_on_def)
  have serial: "holds_text descriptor_S1_M1 (SerialNumberOffset descriptor_S1_M1) [0x53, 0x31]"
    by code_simp
  have product: "holds_text descriptor_S1_M1 (ProductIdOffset descriptor_S1_M1) [0x4D, 0x31]"
    by code_simp
  have cyl: "0 \<le> sint (Cylinders geometry_8GB)"
    by (simp add: geometry_8GB_def)
  have b: "geometry_bytes geometry_8GB = 8225280000"
    by (simp add: geometry_bytes_def geometry_8GB_def)
  have cap: "geometry_bytes geometry_8GB < 2 ^ 62"
    unfolding b by simp
  have r: "DiskPropertiesFetcher ?env stack_unmapped idle volC
     = Inr (?fin,
            \<lparr>open_handles = [],
             calls = [Call_CreateFileW volC,
                      Call_DeviceIoControl 1 IOCTL_VOLUME_GET_VOLUME_DISK_EXTENTS,
                      Call_CloseHandle 1,
                      Call_CreateFileW (devicePath 0),
                      Call_DeviceIoControl 1 IOCTL_STORAGE_QUERY_PROPERTY,
                      Call_DeviceIoControl 1 IOCTL_DISK_GET_DRIVE_GEOMETRY,
                      Call_CloseHandle 1]\<rparr>)"
    by code_simp
  note t = fetch_single_disk [OF vol exts dev sp geo,
      where serial = "[0x53, 0x31]" and product = "[0x4D, 0x31]"
        and stack = stack_unmapped and st = idle]
  from t r serial have c1: "DiskSerialNumber ?fin = [0x53, 0x31]"
    by blast
  from t r product have c2: "DiskModel ?fin = [0x4D, 0x31]"
    by blast
  from t r cyl cap have "uint (DiskSize ?fin) = geometry_bytes geometry_8GB div 2 ^ 30"
    by blast
  then have c3: "uint (DiskSize ?fin) = 8225280000 div 2 ^ 30"
    by (simp only: b)
  let ?big = "stub (Some [extent_on 0]) [(0, Some descriptor_S1_M1, Some geometry_4EiB)]"
  let ?bigfin = "\<lparr>serialNumber = [0x53, 0x31], model = [0x4D, 0x31],
                  sizeQuadPart = 4611686018427387904\<rparr>"
  have vol4: "exists_path ?big volC"
    by (simp add: stub_def)
  have exts4: "volume_disk_extents ?big volC = Some [extent_on 0]"
    by (simp add: stub_def)
  have dev4: "exists_path ?big (devicePath (DiskNumber (extent_on 0)))"
    by (simp add: stub_def find_disk_def extent_on_def)
  have sp4: "storage_property ?big (devicePath (DiskNumber (extent_on 0))) = Some descriptor_S1_M1"
    by (simp add: stub_def find_disk_def extent_on_def)
  have geo4: "drive_geometry ?big (devicePath (DiskNumber (extent_on 0))) = Some geometry_4EiB"
    by (simp add: stub_def find_disk_def extent_on_def)
  have r4: "DiskPropertiesFetcher ?big stack_unmapped idle volC
     = Inr (?bigfin,
            \<lparr>open_handles = [],
             calls = [Call_CreateFileW volC,
                      Call_DeviceIoControl 1 IOCTL_VOLUME_GET_VOLUME_DISK_EXTENTS,
                      Call_CloseHandle 1,
                      Call_CreateFileW (devicePath 0),
                      Call_DeviceIoControl 1 IOCTL_STORAGE_QUERY_PROPERTY,
                      Call_DeviceIoControl 1 IOCTL_DISK_GET_DRIVE_GEOMETRY,
                      Call_CloseHandle 1]\<rparr>)"
    by code_simp
  note t4 = fetch_single_disk [OF vol4 exts4 dev4 sp4 geo4,
      where serial = "[0x53, 0x31]" and product = "[0x4D, 0x31]"
        and stack = stack_unmapped and st = idle]
  from t4 r4 serial have c4: "DiskSerialNumber ?bigfin = [0x53, 0x31]"
    by blast
  let ?run = "stub (Some [extent_on 0]) [(0, Some descriptor_unterminated, Some geometry_8GB)]"
  let ?runfin = "\<lparr>serialNumber = [0x41, 0x41], model = [], sizeQuadPart = 8225280000\<rparr>"
  have vol5: "exists_path ?run volC"
    by (simp add: stub_def)
  have exts5: "volume_disk_extents ?run volC = Some [extent_on 0]"
    by (simp add: stub_def)
  have dev5: "exists_path ?run (devicePath (DiskNumber (extent_on 0)))"
    by (simp add: stub_def find_disk_def extent_on_def)
  have sp5: "storage_property ?run (devicePath (DiskNumber (extent_on 0)))
               = Some descriptor_unterminated"
    by (simp add: stub_def find_disk_def extent_on_def)
  have geo5: "drive_geometry ?run (devicePath (DiskNumber (extent_on 0))) = Some geometry_8GB"
    by (simp add: stub_def find_disk_def extent_on_def)
  have r5: "DiskPropertiesFetcher ?run stack_A idle volC
     = Inr (?runfin,
            \<lparr>open_handles = [],
             calls = [Call_CreateFileW volC,
                      Call_DeviceIoControl 1 IOCTL_VOLUME_GET_VOLUME_DISK_EXTENTS,
                      Call_CloseHandle 1,
                      Call_CreateFileW (devicePath 0),
                      Call_DeviceIoControl 1 IOCTL_STORAGE_QUERY_PROPERTY,
                      Call_DeviceIoControl 1 IOCTL_DISK_GET_DRIVE_GEOMETRY,
                      Call_CloseHandle 1]\<rparr>)"
    by code_simp
  note t5 = fetch_single_disk [OF vol5 exts5 dev5 sp5 geo5,
      where serial = "[]" and product = "[]" and stack = stack_A and st = idle]
  from t5 r5 cyl cap have "uint (DiskSize ?runfin) = geometry_bytes geometry_8GB div 2 ^ 30"
    by blast
  then have c5: "uint (DiskSize ?runfin) = 8225280000 div 2 ^ 30"
    by (simp only: b)
  from vol exts dev sp geo serial product cyl b r c1 c2 c3 r4 c4 r5 c5 show ?thesis
    by (intro conjI)
qed

end
